theory Spec2Isabelle
  imports Main "HOL-Library.AList"
begin

section \<open>Values, errors and reflection\<close>

text \<open>
  Go errors. \<open>ErrGormCache\<close> is the struct of the same name (an error wrapping another
  one); \<open>ErrJoin\<close> is what gorm's \<open>AddError\<close> builds when the query already carries an
  error (\<open>fmt.Errorf("%v; %w", db.Error, err)\<close>).
\<close>

datatype error = Err string | ErrGormCache error | ErrJoin error error

text \<open>\<open>NewErrGormCache\<close>: wraps a non-nil error, keeps nil.\<close>

definition NewErrGormCache :: "error option \<Rightarrow> error option" where
  "NewErrGormCache err = (case err of Some e \<Rightarrow> Some (ErrGormCache e) | None \<Rightarrow> None)"

text \<open>
  \<open>reflect.Kind\<close>, as far as the code tells kinds apart: pointer, slice, array, struct,
  and every other kind with the name \<open>Kind.String()\<close> prints.
\<close>

datatype kind = Ptr | Slice | Array | Struct | Other string

text \<open>
  \<open>reflect.Type\<close>: a package path, a name (empty for an unnamed type such as
  \<open>[]User\<close> or \<open>*User\<close>) and a shape. Type descriptors are finite trees here; a
  self-referential pointer type (\<open>type P *P\<close>) is outside the model.
\<close>

datatype rtype = RType (PkgPath: string) (TName: string) (Shape: shape)
  and shape = SPtr rtype | SSlice rtype | SArray nat rtype | SStruct | SOther string

fun Kind :: "rtype \<Rightarrow> kind" where
  "Kind (RType p n (SPtr e)) = Ptr"
| "Kind (RType p n (SSlice e)) = Slice"
| "Kind (RType p n (SArray k e)) = Array"
| "Kind (RType p n SStruct) = Struct"
| "Kind (RType p n (SOther s)) = Other s"

text \<open>The first loop of \<open>structType\<close>: \<open>for typ.Kind() == reflect.Ptr { typ = typ.Elem() }\<close>.\<close>

fun ptrLoop :: "rtype \<Rightarrow> rtype" where
  "ptrLoop (RType p n (SPtr e)) = ptrLoop e"
| "ptrLoop typ = typ"

text \<open>
  The second loop and the assignment after it:
  \<open>for typ.Elem().Kind() == reflect.Ptr { typ = typ.Elem() }; t = typ.Elem()\<close>.
  It is entered with a slice or an array; the last equation (a type without \<open>Elem\<close>)
  is never reached from \<open>structType\<close>.
\<close>

fun elemLoop :: "rtype \<Rightarrow> rtype" where
  "elemLoop (RType p n (SPtr e)) = (if Kind e = Ptr then elemLoop e else e)"
| "elemLoop (RType p n (SSlice e)) = (if Kind e = Ptr then elemLoop e else e)"
| "elemLoop (RType p n (SArray k e)) = (if Kind e = Ptr then elemLoop e else e)"
| "elemLoop typ = typ"

text \<open>
  \<open>structType\<close>, on the dynamic type of a non-nil interface value. (For a nil
  interface \<open>reflect.TypeOf\<close> is nil and \<open>typ.Kind()\<close> panics: see \<open>addModels\<close>.)
\<close>

definition structType :: "rtype \<Rightarrow> rtype" where
  "structType val =
     (let typ = ptrLoop val
      in case Kind typ of
           Array \<Rightarrow> elemLoop typ
         | Slice \<Rightarrow> elemLoop typ
         | _ \<Rightarrow> typ)"

text \<open>
  Field values (what gorm's \<open>field.ValueOf\<close> hands out as \<open>interface{}\<close>), a struct
  instance as the values of its fields by name, and \<open>map[string]interface{}\<close> as an
  association list (\<open>AList.update\<close> is the map assignment, \<open>map_of\<close> the lookup).
\<close>

datatype fval = VInt int | VStr string | VBool bool

type_synonym row = "string \<Rightarrow> fval"

type_synonym fmap = "(string \<times> fval) list"

text \<open>
  \<open>schema.Field\<close> of gorm: its \<open>Name\<close> and its \<open>ValueOf\<close> function (a func-typed
  struct field there too), which returns the field's value and whether it is zero.
\<close>

record Field =
  Name :: string
  ValueOf :: "row \<Rightarrow> fval \<times> bool"

text \<open>
  The object \<open>db.Statement.ReflectValue\<close> views, which \<open>db.Statement.Dest\<close> leads to:
  one struct, a slice or an array of structs (with the zero value of its element type,
  which stands for that type, and its elements), or a value of another kind (with the
  name of the kind). The elements of a \<open>[]*T\<close> are the structs its pointers point to,
  as \<open>gorm.Scan\<close> allocates them before the encode step reads them; a nil pointer
  among the elements has no value here.
\<close>

datatype gvalue = VStruct row | VSlice row "row list" | VArray row "row list" | VOther string

fun ValueKind :: "gvalue \<Rightarrow> kind" where
  "ValueKind (VStruct r) = Struct"
| "ValueKind (VSlice z rs) = Slice"
| "ValueKind (VArray z rs) = Array"
| "ValueKind (VOther s) = Other s"

text \<open>\<open>reflect.Value.Len\<close>; it panics (\<open>None\<close>) on a struct and on the other kinds.\<close>

fun Len :: "gvalue \<Rightarrow> nat option" where
  "Len (VSlice z rs) = Some (length rs)"
| "Len (VArray z rs) = Some (length rs)"
| "Len v = None"

fun KindString :: "kind \<Rightarrow> string" where
  "KindString Ptr = ''ptr''"
| "KindString Slice = ''slice''"
| "KindString Array = ''array''"
| "KindString Struct = ''struct''"
| "KindString (Other s) = s"

text \<open>The message of the two \<open>Logger.Info\<close> calls.\<close>

definition notSupport :: "kind \<Rightarrow> string" where
  "notSupport k = ''gorm-cache: '' @ KindString k @ '', type not support''"

text \<open>What the code passes to \<open>Marshal\<close>: \<open>valueData\<close> or \<open>valueArrData\<close> (nil maps are \<open>None\<close>).\<close>

datatype marshalled = ValueData fmap | ValueArrData "fmap option list"

section \<open>The query state and the collaborators\<close>

text \<open>
  The calls that leave the plugin, in order: the store's \<open>Get\<close> and \<open>Set\<close>, the
  connection pool's \<open>QueryContext\<close>, and the logger's \<open>Info\<close>.
\<close>

datatype call =
    CallGet string
  | CallSet string string int
  | CallQueryContext string "fval list"
  | CallInfo string

text \<open>
  \<open>*gorm.DB\<close> with the parts of its \<open>Statement\<close> the plugin reads and writes.
  \<open>nocachectx\<close> says whether \<open>Statement.Context\<close> carries the key \<open>nocachectx{}\<close>;
  \<open>Schema\<close> is \<open>Statement.Schema\<close> (nil, or its \<open>Fields\<close>); \<open>DestType\<close> is the type
  of \<open>Statement.ReflectValue\<close> and \<open>ReflectValue\<close> its contents: the object gorm
  reaches from \<open>Statement.Dest\<close> by following its pointers. \<open>DestPtrs\<close> is the
  number of those pointers: 1 for \<open>db.Find(&users)\<close>, 2 when a pointer to a pointer
  is passed (\<open>var u *User; db.First(&u)\<close>), 0 when \<open>Dest\<close> is not a pointer.
  \<open>calls\<close> records the outgoing calls.
\<close>

record DB =
  DryRun :: bool
  Error :: "error option"
  RowsAffected :: int
  SQL :: string
  Vars :: "fval list"
  nocachectx :: bool
  Schema :: "Field list option"
  DestType :: rtype
  ReflectValue :: gvalue
  DestPtrs :: nat
  calls :: "call list"

text \<open>gorm's \<open>AddError\<close>: nil is ignored, the first error is stored, a later one is joined.\<close>

definition AddError :: "error option \<Rightarrow> DB \<Rightarrow> DB" where
  "AddError err db =
     (case err of
        None \<Rightarrow> db
      | Some e \<Rightarrow>
          (case Error db of
             None \<Rightarrow> db\<lparr>Error := Some e\<rparr>
           | Some e0 \<Rightarrow> db\<lparr>Error := Some (ErrJoin e0 e)\<rparr>))"

text \<open>
  The interfaces \<open>CacheKV\<close> and \<open>Codec\<close>. \<open>Marshal\<close> returns its bytes and its error.
  \<open>Unmarshal\<close> takes the payload and the destination, given as the number of
  pointers the argument is away from the object and the object itself; it returns the
  object as it has written it, and its error.
\<close>

record CacheKV =
  Get :: "string \<Rightarrow> bool \<times> string \<times> error option"
  Set :: "string \<Rightarrow> string \<Rightarrow> int \<Rightarrow> error option"

record Codec =
  Marshal :: "marshalled \<Rightarrow> string \<times> error option"
  Unmarshal :: "string \<Rightarrow> nat \<Rightarrow> gvalue \<Rightarrow> gvalue \<times> error option"

text \<open>
  The libraries the plugin calls, as parameters: \<open>callbacks.BuildQuerySQL\<close> (the
  statement it builds and the error it may add), \<open>ConnPool.QueryContext\<close>,
  \<open>gorm.Scan\<close> (the destination it fills, the row count, an error),
  \<open>Dialector.Explain\<close>, the package \<open>encoding/json\<close>, and the results of the two
  callback registrations of \<open>Initialize\<close>.
\<close>

record extern =
  BuildQuerySQL :: "DB \<Rightarrow> string \<times> fval list \<times> error option"
  QueryContext :: "string \<Rightarrow> fval list \<Rightarrow> row list \<times> error option"
  Scan :: "row list \<Rightarrow> gvalue \<Rightarrow> gvalue \<times> int \<times> error option"
  Explain :: "string \<Rightarrow> fval list \<Rightarrow> string"
  json :: Codec
  CallbackReplace :: "string \<Rightarrow> error option"
  CallbackRegister :: "string \<Rightarrow> string \<Rightarrow> error option"

section \<open>The plugin\<close>

definition PluginName :: string where
  "PluginName = ''gorm-cache''"

record GormCacher =
  kv :: CacheKV
  queryAfterRegisterName :: string
  modelNames :: "string \<rightharpoonup> bool"
  exp :: int
  cacheKeyFunc :: "DB \<Rightarrow> string"
  codec :: Codec

text \<open>\<open>stdJsonCodec\<close> hands both calls to \<open>encoding/json\<close>.\<close>

definition stdJsonCodec :: "extern \<Rightarrow> Codec" where
  "stdJsonCodec ext = \<lparr>Marshal = Marshal (json ext), Unmarshal = Unmarshal (json ext)\<rparr>"

text \<open>An option is applied to the plugin under construction; \<open>None\<close> is a panic.\<close>

type_synonym Option = "GormCacher \<Rightarrow> GormCacher option"

definition CacheKeyFunc :: "(DB \<Rightarrow> string) \<Rightarrow> Option" where
  "CacheKeyFunc f gc = Some (gc\<lparr>cacheKeyFunc := f\<rparr>)"

text \<open>
  The loop of \<open>Models\<close> over its arguments (each the dynamic type of an
  \<open>interface{}\<close>, \<open>None\<close> for a nil one, on which \<open>structType\<close> panics).
\<close>

fun addModels :: "rtype option list \<Rightarrow> (string \<rightharpoonup> bool) \<Rightarrow> (string \<rightharpoonup> bool) option" where
  "addModels [] names = Some names"
| "addModels (None # models) names = None"
| "addModels (Some item # models) names =
     addModels models (names(TName (structType item) \<mapsto> True))"

definition Models :: "rtype option list \<Rightarrow> Option" where
  "Models models gc =
     (case addModels models Map.empty of
        None \<Rightarrow> None
      | Some names \<Rightarrow> Some (gc\<lparr>modelNames := names\<rparr>))"

definition WithCodec :: "Codec \<Rightarrow> Option" where
  "WithCodec c gc = Some (gc\<lparr>codec := c\<rparr>)"

fun applyOptions :: "Option list \<Rightarrow> GormCacher \<Rightarrow> GormCacher option" where
  "applyOptions [] cacher = Some cacher"
| "applyOptions (opt # options) cacher =
     (case opt cacher of None \<Rightarrow> None | Some cacher' \<Rightarrow> applyOptions options cacher')"

definition GormCache :: "extern \<Rightarrow> CacheKV \<Rightarrow> int \<Rightarrow> Option list \<Rightarrow> GormCacher option" where
  "GormCache ext store e options =
     applyOptions options
       \<lparr>kv = store,
        queryAfterRegisterName = PluginName @ '':after_query'',
        modelNames = Map.empty,
        exp = e,
        cacheKeyFunc = (\<lambda>db. Explain ext (SQL db) (Vars db)),
        codec = stdJsonCodec ext\<rparr>"

text \<open>
  \<open>Initialize\<close>: the error it returns and the callback registrations it has asked gorm
  for, in order.
\<close>

datatype callback = CbQuery | CbQueryAfter

datatype registration = Replace string callback | RegisterAfter string string callback

definition Initialize :: "extern \<Rightarrow> GormCacher \<Rightarrow> error option \<times> registration list" where
  "Initialize ext g =
     (if dom (modelNames g) = {} then
        (NewErrGormCache (Some (Err ''call `Models` to add model that needs to be cached'')), [])
      else
        (case CallbackReplace ext ''gorm:query'' of
           Some err \<Rightarrow> (NewErrGormCache (Some err), [Replace ''gorm:query'' CbQuery])
         | None \<Rightarrow>
             (case CallbackRegister ext ''gorm:query'' (queryAfterRegisterName g) of
                Some err \<Rightarrow>
                  (NewErrGormCache (Some err),
                   [Replace ''gorm:query'' CbQuery,
                    RegisterAfter ''gorm:query'' (queryAfterRegisterName g) CbQueryAfter])
              | None \<Rightarrow>
                  (None,
                   [Replace ''gorm:query'' CbQuery,
                    RegisterAfter ''gorm:query'' (queryAfterRegisterName g) CbQueryAfter]))))"

section \<open>The query path\<close>

text \<open>
  \<open>canCache\<close>: the name of \<open>structType\<close> of the destination is looked up in
  \<open>modelNames\<close>; only the presence of the key counts.
\<close>

definition canCache :: "GormCacher \<Rightarrow> DB \<Rightarrow> bool" where
  "canCache g db =
     (let tname = TName (structType (DestType db))
      in modelNames g tname \<noteq> None)"

text \<open>
  \<open>singleflight.Group.Do\<close> in a sequential run: no other call for the key is in
  flight, so the function runs and its result is returned.
\<close>

definition Do :: "string \<Rightarrow> (unit \<Rightarrow> 'a) \<Rightarrow> 'a" where
  "Do key fn = fn ()"

text \<open>
  \<open>queryFromDB\<close>. With an empty key the query runs directly; otherwise it runs inside
  \<open>requestGroup.Do\<close>, after the context has been tagged with \<open>nocachectx{}\<close>.
\<close>

definition queryFromDB :: "extern \<Rightarrow> GormCacher \<Rightarrow> DB \<Rightarrow> string \<Rightarrow> DB" where
  "queryFromDB ext g db cachekey =
     (let ((rows, err), db1) =
            (if cachekey = '''' then
               (QueryContext ext (SQL db) (Vars db),
                db\<lparr>calls := calls db @ [CallQueryContext (SQL db) (Vars db)]\<rparr>)
             else
               Do cachekey (\<lambda>_.
                 (QueryContext ext (SQL db) (Vars db),
                  db\<lparr>nocachectx := True,
                     calls := calls db @ [CallQueryContext (SQL db) (Vars db)]\<rparr>)))
      in if err \<noteq> None then AddError err db1
         else
           (let (dest, n, serr) = Scan ext rows (ReflectValue db1)
            in AddError serr (db1\<lparr>ReflectValue := dest, RowsAffected := n\<rparr>)))"

text \<open>
  What \<open>elem\<close> is after
  \<open>elem := reflect.ValueOf(db.Statement.Dest); if !elem.CanSet() { elem = elem.Elem() }\<close>.
  A value that comes from \<open>reflect.ValueOf\<close> is never settable, so \<open>elem\<close> is always
  \<open>Dest.Elem()\<close>: a panic (\<open>None\<close>) when \<open>Dest\<close> is not a pointer, the destination
  object when \<open>Dest\<close> points to it, and a pointer when \<open>Dest\<close> is a pointer to a
  pointer.
\<close>

datatype elemValue = ElemObject gvalue | ElemPointer

fun destElem :: "nat \<Rightarrow> gvalue \<Rightarrow> elemValue option" where
  "destElem 0 obj = None"
| "destElem (Suc 0) obj = Some (ElemObject obj)"
| "destElem (Suc (Suc n)) obj = Some ElemPointer"

text \<open>\<open>elem.Len()\<close>: it panics on a pointer, as it does on a struct.\<close>

fun elemLen :: "elemValue \<Rightarrow> nat option" where
  "elemLen (ElemObject v) = Len v"
| "elemLen ElemPointer = None"

text \<open>
  \<open>reflectValue.Set(elem)\<close>: the object is assigned to itself; a pointer is not
  assignable to the type of the object, and \<open>Set\<close> panics.
\<close>

fun setElem :: "elemValue \<Rightarrow> gvalue option" where
  "setElem (ElemObject v) = Some v"
| "setElem ElemPointer = None"

text \<open>
  \<open>unmarshalToDB\<close>. \<open>json.Unmarshal\<close> writes through \<open>Statement.Dest\<close>, so what it
  has written is in the destination also when it reports an error. The switch is on
  the kind of the destination. \<open>None\<close> is a panic: of \<open>Elem\<close>, of \<open>Len\<close> or of \<open>Set\<close>.
\<close>

definition unmarshalToDB :: "extern \<Rightarrow> GormCacher \<Rightarrow> string \<Rightarrow> DB \<Rightarrow> DB option" where
  "unmarshalToDB ext g cacheValue db =
     (let reflectValue = ReflectValue db;
          (written, err) = Unmarshal (json ext) cacheValue (DestPtrs db) (ReflectValue db);
          db1 = db\<lparr>ReflectValue := written\<rparr>
      in if err \<noteq> None then Some (AddError err db1)
         else
           (case destElem (DestPtrs db) written of
              None \<Rightarrow> None
            | Some elem \<Rightarrow>
                (case (case ValueKind reflectValue of
                         Struct \<Rightarrow> Some (db1\<lparr>RowsAffected := 1\<rparr>)
                       | Slice \<Rightarrow>
                           (case elemLen elem of
                              None \<Rightarrow> None
                            | Some n \<Rightarrow> Some (db1\<lparr>RowsAffected := int n\<rparr>))
                       | Array \<Rightarrow>
                           (case elemLen elem of
                              None \<Rightarrow> None
                            | Some n \<Rightarrow> Some (db1\<lparr>RowsAffected := int n\<rparr>))
                       | k \<Rightarrow> Some (db1\<lparr>calls := calls db1 @ [CallInfo (notSupport k)]\<rparr>)) of
                   None \<Rightarrow> None
                 | Some db2 \<Rightarrow>
                     (case setElem elem of
                        None \<Rightarrow> None
                      | Some v \<Rightarrow> Some (db2\<lparr>ReflectValue := v\<rparr>)))))"

text \<open>
  The loop of \<open>queryResult\<close> over the fields of one struct: a field that is not zero
  is stored in \<open>valueData\<close> under its name.
\<close>

fun structFields :: "Field list \<Rightarrow> row \<Rightarrow> fmap \<Rightarrow> fmap" where
  "structFields [] r valueData = valueData"
| "structFields (field # flds) r valueData =
     (let (fieldValue, isZero) = ValueOf field r
      in structFields flds r
           (if \<not> isZero then AList.update (Name field) fieldValue valueData else valueData))"

text \<open>
  The body of the inner loop for a slice or an array, at index \<open>i\<close>: the map of the
  element is made when its first field that is not zero is stored.
\<close>

definition elemField :: "Field \<Rightarrow> row list \<Rightarrow> nat \<Rightarrow> fmap option list \<Rightarrow> fmap option list" where
  "elemField field elems i valueArrData =
     (let (fieldValue, isZero) = ValueOf field (elems ! i)
      in if \<not> isZero then
           (let m = (case valueArrData ! i of None \<Rightarrow> [] | Some m \<Rightarrow> m)
            in valueArrData[i := Some (AList.update (Name field) fieldValue m)])
         else valueArrData)"

text \<open>The two loops: over the fields, and for each over \<open>i = 0, ..., lens - 1\<close>.\<close>

fun sliceFields :: "Field list \<Rightarrow> row list \<Rightarrow> nat \<Rightarrow> fmap option list \<Rightarrow> fmap option list" where
  "sliceFields [] elems lens valueArrData = valueArrData"
| "sliceFields (field # flds) elems lens valueArrData =
     sliceFields flds elems lens
       (fold (elemField field elems) [0..<lens] valueArrData)"

text \<open>The slice and array branch of \<open>queryResult\<close>, up to the call of \<open>Marshal\<close>.\<close>

definition sliceData :: "Field list \<Rightarrow> row list \<Rightarrow> fmap option list" where
  "sliceData flds elems =
     (let lens = length elems
      in sliceFields flds elems lens (replicate lens None))"

text \<open>
  \<open>queryResult\<close>: \<open>(ok, payload, err)\<close> and the state (the default branch logs).
  \<open>None\<close> is the panic of \<open>db.Statement.Schema.Fields\<close> on a nil schema.
\<close>

definition queryResult ::
  "extern \<Rightarrow> GormCacher \<Rightarrow> DB \<Rightarrow> ((bool \<times> string \<times> error option) \<times> DB) option" where
  "queryResult ext g db =
     (case Schema db of
        None \<Rightarrow> None
      | Some flds \<Rightarrow>
          (case ReflectValue db of
             VStruct r \<Rightarrow>
               (let valueData = structFields flds r [];
                    (val, err) = Marshal (json ext) (ValueData valueData)
                in Some ((True, val, err), db))
           | VSlice z elems \<Rightarrow>
               (let (val, err) = Marshal (json ext) (ValueArrData (sliceData flds elems))
                in Some ((True, val, err), db))
           | VArray z elems \<Rightarrow>
               (let (val, err) = Marshal (json ext) (ValueArrData (sliceData flds elems))
                in Some ((True, val, err), db))
           | VOther s \<Rightarrow>
               Some ((False, '''', None),
                     db\<lparr>calls := calls db @ [CallInfo (notSupport (Other s))]\<rparr>)))"

text \<open>\<open>callbacks.BuildQuerySQL\<close> applied to the state.\<close>

definition buildQuerySQL :: "extern \<Rightarrow> DB \<Rightarrow> DB" where
  "buildQuerySQL ext db =
     (let (sql, vars, err) = BuildQuerySQL ext db
      in AddError err (db\<lparr>SQL := sql, Vars := vars\<rparr>))"

text \<open>\<open>query\<close>, the callback that replaces \<open>gorm:query\<close>. \<open>None\<close> is a panic.\<close>

definition query :: "extern \<Rightarrow> GormCacher \<Rightarrow> DB \<Rightarrow> DB option" where
  "query ext g db =
     (if DryRun db \<or> Error db \<noteq> None then Some db
      else
        (let db1 = buildQuerySQL ext db
         in if canCache g db1 then
              (let cachekey = cacheKeyFunc g db1;
                   (ok, cached, err) = Get (kv g) cachekey;
                   db2 = db1\<lparr>calls := calls db1 @ [CallGet cachekey]\<rparr>
               in if err \<noteq> None then Some (AddError (NewErrGormCache err) db2)
                  else if ok then unmarshalToDB ext g cached db2
                  else Some (queryFromDB ext g db2 cachekey))
            else Some (queryFromDB ext g db1 '''')))"

text \<open>
  \<open>queryAfter\<close>, the callback registered after \<open>gorm:query\<close>. \<open>None\<close> is a panic
  (of \<open>queryResult\<close>).
\<close>

definition queryAfter :: "extern \<Rightarrow> GormCacher \<Rightarrow> DB \<Rightarrow> DB option" where
  "queryAfter ext g db =
     (if \<not> nocachectx db then Some db
      else if Error db \<noteq> None \<or> Schema db = None \<or> \<not> canCache g db then Some db
      else
        (case queryResult ext g db of
           None \<Rightarrow> None
         | Some ((ok, val, err), db1) \<Rightarrow>
             if \<not> ok then Some db1
             else
               (let key = cacheKeyFunc g db1
                in if err \<noteq> None then Some (AddError (NewErrGormCache err) db1)
                   else
                     (let serr = Set (kv g) key val (exp g);
                          db2 = db1\<lparr>calls := calls db1 @ [CallSet key val (exp g)]\<rparr>
                      in if serr \<noteq> None then Some (AddError (NewErrGormCache serr) db2)
                         else Some db2))))"

text \<open>
  One read: gorm runs the callback \<open>query\<close> and then the callback \<open>queryAfter\<close>
  on the same \<open>*gorm.DB\<close>.
\<close>

definition runQuery :: "extern \<Rightarrow> GormCacher \<Rightarrow> DB \<Rightarrow> DB option" where
  "runQuery ext g db =
     (case query ext g db of None \<Rightarrow> None | Some db1 \<Rightarrow> queryAfter ext g db1)"

text \<open>The calls to the store among the recorded calls.\<close>

fun isStoreCall :: "call \<Rightarrow> bool" where
  "isStoreCall (CallGet k) = True"
| "isStoreCall (CallSet k v e) = True"
| "isStoreCall c = False"

fun isQueryCall :: "call \<Rightarrow> bool" where
  "isQueryCall (CallQueryContext s vs) = True"
| "isQueryCall c = False"

section \<open>Zero values and gorm's accessors\<close>

text \<open>The zero value of the type of a field value, and the test gorm's accessors make.\<close>

fun zeroOf :: "fval \<Rightarrow> fval" where
  "zeroOf (VInt i) = VInt 0"
| "zeroOf (VStr s) = VStr []"
| "zeroOf (VBool b) = VBool False"

definition isZeroValue :: "fval \<Rightarrow> bool" where
  "isZeroValue v = (v = zeroOf v)"

text \<open>
  The accessor gorm builds for a field: it reads the field of that name and reports
  whether the value is the zero value of its type.
\<close>

definition fieldNamed :: "string \<Rightarrow> Field" where
  "fieldNamed n = \<lparr>Name = n, ValueOf = (\<lambda>r. (r n, isZeroValue (r n)))\<rparr>"

definition readsField :: "Field \<Rightarrow> bool" where
  "readsField f = (ValueOf f = ValueOf (fieldNamed (Name f)))"

section \<open>Collections, slot by slot\<close>

text \<open>
  What the two loops of the slice branch do to the slot of one element \<open>r\<close>,
  field after field: a field that is not zero is stored, and makes the map first
  when the slot is still nil.
\<close>

fun slotFields :: "Field list \<Rightarrow> row \<Rightarrow> fmap option \<Rightarrow> fmap option" where
  "slotFields [] r slot = slot"
| "slotFields (field # flds) r slot =
     (let (fieldValue, isZero) = ValueOf field r
      in slotFields flds r
           (if \<not> isZero then
              Some (AList.update (Name field) fieldValue (case slot of None \<Rightarrow> [] | Some m \<Rightarrow> m))
            else slot))"

section \<open>Sample collaborators\<close>

text \<open>
  A stand-in for \<open>encoding/json\<close> on the fragment the plugin writes and reads:
  objects whose members are integers, strings and booleans, arrays of such objects
  and of \<open>null\<close>, without white space. \<open>render\<close> is \<open>json.Marshal\<close> of a field map
  or of a slice of field maps: the members sorted by key (bytewise), strings between
  quotes with the escapes \<open>json.Marshal\<close> writes for ASCII text (quote, backslash,
  line feed, carriage return, tab as two characters; the other control characters
  and the characters less-than, greater-than and ampersand as a unicode escape), a
  nil map as \<open>null\<close>.
\<close>

definition quote :: char where
  "quote = CHR 0x22"

definition backslash :: char where
  "backslash = CHR 0x5C"

function digitsOf :: "nat \<Rightarrow> string" where
  "digitsOf n =
     (if n < 10 then [''0123456789'' ! n]
      else digitsOf (n div 10) @ [''0123456789'' ! (n mod 10)])"
  by pat_completeness auto
termination
  by (relation "measure id") auto

definition escapeChar :: "char \<Rightarrow> string" where
  "escapeChar c =
     (if c = quote then [backslash, quote]
      else if c = backslash then [backslash, backslash]
      else if c = CHR 0x0A then [backslash, CHR ''n'']
      else if c = CHR 0x0D then [backslash, CHR ''r'']
      else if c = CHR 0x09 then [backslash, CHR ''t'']
      else if (of_char c :: nat) < 32 \<or> c = CHR ''<'' \<or> c = CHR ''>'' \<or> c = CHR ''&'' then
        [backslash, CHR ''u'', CHR ''0'', CHR ''0'',
         ''0123456789abcdef'' ! ((of_char c :: nat) div 16),
         ''0123456789abcdef'' ! ((of_char c :: nat) mod 16)]
      else [c])"

definition renderString :: "string \<Rightarrow> string" where
  "renderString s = quote # concat (map escapeChar s) @ [quote]"

fun renderValue :: "fval \<Rightarrow> string" where
  "renderValue (VInt i) = (if i < 0 then CHR ''-'' # digitsOf (nat (- i)) else digitsOf (nat i))"
| "renderValue (VStr s) = renderString s"
| "renderValue (VBool b) = (if b then ''true'' else ''false'')"

fun keyLess :: "string \<Rightarrow> string \<Rightarrow> bool" where
  "keyLess [] [] = False"
| "keyLess [] (d # ds) = True"
| "keyLess (c # cs) [] = False"
| "keyLess (c # cs) (d # ds) = ((of_char c :: nat) < of_char d \<or> (c = d \<and> keyLess cs ds))"

fun insertMember :: "string \<times> fval \<Rightarrow> fmap \<Rightarrow> fmap" where
  "insertMember x [] = [x]"
| "insertMember x (m # ms) =
     (if keyLess (fst x) (fst m) then x # m # ms else m # insertMember x ms)"

definition sortMembers :: "fmap \<Rightarrow> fmap" where
  "sortMembers m = foldr insertMember m []"

fun renderMembers :: "fmap \<Rightarrow> string" where
  "renderMembers [] = []"
| "renderMembers [(k, v)] = renderString k @ CHR '':'' # renderValue v"
| "renderMembers ((k, v) # m) =
     renderString k @ CHR '':'' # renderValue v @ CHR '','' # renderMembers m"

fun renderSlot :: "fmap option \<Rightarrow> string" where
  "renderSlot None = ''null''"
| "renderSlot (Some m) = CHR ''{'' # renderMembers (sortMembers m) @ ''}''"

fun renderSlots :: "fmap option list \<Rightarrow> string" where
  "renderSlots [] = []"
| "renderSlots [m] = renderSlot m"
| "renderSlots (m # ms) = renderSlot m @ CHR '','' # renderSlots ms"

fun render :: "marshalled \<Rightarrow> string" where
  "render (ValueData m) = renderSlot (Some m)"
| "render (ValueArrData ms) = CHR ''['' # renderSlots ms @ '']''"

text \<open>
  The parser of the stand-in. A document is \<open>null\<close>, an object or an array of objects
  and \<open>null\<close>; a member value is a string, an integer, a boolean or \<open>null\<close>. Anything
  else is reported as a syntax error. (The real decoder also reads white space,
  fractions, nested values and escapes beyond ASCII.)
\<close>

datatype jvalue = JNull | JBool bool | JInt int | JString string

datatype jdoc =
    JNullDoc
  | JObject "(string \<times> jvalue) list"
  | JArray "(string \<times> jvalue) list option list"

definition digitValue :: "char \<Rightarrow> nat option" where
  "digitValue c = map_of (zip ''0123456789'' [0, 1, 2, 3, 4, 5, 6, 7, 8, 9]) c"

definition hexValue :: "char \<Rightarrow> nat option" where
  "hexValue c =
     map_of (zip ''0123456789abcdefABCDEF''
               [0, 1, 2, 3, 4, 5, 6, 7, 8, 9, 10, 11, 12, 13, 14, 15, 10, 11, 12, 13, 14, 15]) c"

text \<open>The characters of a string after its opening quote, up to the closing quote.\<close>

fun parseChars :: "string \<Rightarrow> string \<Rightarrow> (string \<times> string) option" where
  "parseChars [] acc = None"
| "parseChars (c # cs) acc =
     (if c = quote then Some (acc, cs)
      else if c = backslash then
        (case cs of
           [] \<Rightarrow> None
         | e # rest \<Rightarrow>
             if e = quote \<or> e = backslash \<or> e = CHR ''/'' then parseChars rest (acc @ [e])
             else if e = CHR ''b'' then parseChars rest (acc @ [CHR 0x08])
             else if e = CHR ''f'' then parseChars rest (acc @ [CHR 0x0C])
             else if e = CHR ''n'' then parseChars rest (acc @ [CHR 0x0A])
             else if e = CHR ''r'' then parseChars rest (acc @ [CHR 0x0D])
             else if e = CHR ''t'' then parseChars rest (acc @ [CHR 0x09])
             else if e = CHR ''u'' then
               (case rest of
                  h1 # h2 # h3 # h4 # rest' \<Rightarrow>
                    (case (hexValue h1, hexValue h2, hexValue h3, hexValue h4) of
                       (Some 0, Some 0, Some a, Some b) \<Rightarrow>
                         if a < 8 then parseChars rest' (acc @ [char_of (16 * a + b)]) else None
                     | _ \<Rightarrow> None)
                | _ \<Rightarrow> None)
             else None)
      else if (of_char c :: nat) < 32 then None
      else parseChars cs (acc @ [c]))"

fun parseDigits :: "string \<Rightarrow> nat \<Rightarrow> nat \<times> string" where
  "parseDigits [] acc = (acc, [])"
| "parseDigits (c # cs) acc =
     (case digitValue c of
        Some d \<Rightarrow> parseDigits cs (10 * acc + d)
      | None \<Rightarrow> (acc, c # cs))"

text \<open>
  An integer: a digit sequence without a leading zero (a lone zero apart); a fraction
  or an exponent after it is not read.
\<close>

definition parseNat :: "string \<Rightarrow> (nat \<times> string) option" where
  "parseNat s =
     (case s of
        [] \<Rightarrow> None
      | c # cs \<Rightarrow>
          if digitValue c = None then None
          else
            (let (n, rest) = (if c = CHR ''0'' then (0, cs) else parseDigits s 0)
             in case rest of
                  [] \<Rightarrow> Some (n, rest)
                | d # ds \<Rightarrow>
                    if digitValue d \<noteq> None \<or> d = CHR ''.'' \<or> d = CHR ''e'' \<or> d = CHR ''E''
                    then None else Some (n, rest)))"

definition parseValue :: "string \<Rightarrow> (jvalue \<times> string) option" where
  "parseValue s =
     (case s of
        [] \<Rightarrow> None
      | c # cs \<Rightarrow>
          if c = quote then
            (case parseChars cs [] of
               None \<Rightarrow> None
             | Some (str, rest) \<Rightarrow> Some (JString str, rest))
          else if c = CHR ''-'' then
            (case parseNat cs of
               None \<Rightarrow> None
             | Some (n, rest) \<Rightarrow> Some (JInt (- int n), rest))
          else if take 4 s = ''true'' then Some (JBool True, drop 4 s)
          else if take 5 s = ''false'' then Some (JBool False, drop 5 s)
          else if take 4 s = ''null'' then Some (JNull, drop 4 s)
          else
            (case parseNat s of
               None \<Rightarrow> None
             | Some (n, rest) \<Rightarrow> Some (JInt (int n), rest)))"

text \<open>The members of an object after its opening brace; the fuel bounds their number.\<close>

fun parseMembers ::
  "nat \<Rightarrow> string \<Rightarrow> (string \<times> jvalue) list \<Rightarrow> ((string \<times> jvalue) list \<times> string) option" where
  "parseMembers 0 s m = None"
| "parseMembers (Suc fuel) s m =
     (case parseValue s of
        Some (JString k, c # rest) \<Rightarrow>
          if c = CHR '':'' then
            (case parseValue rest of
               Some (v, d # rest') \<Rightarrow>
                 if d = CHR '','' then parseMembers fuel rest' (m @ [(k, v)])
                 else if d = CHR ''}'' then Some (m @ [(k, v)], rest')
                 else None
             | _ \<Rightarrow> None)
          else None
      | _ \<Rightarrow> None)"

definition parseSlot :: "string \<Rightarrow> ((string \<times> jvalue) list option \<times> string) option" where
  "parseSlot s =
     (if take 4 s = ''null'' then Some (None, drop 4 s)
      else if take 2 s = ''{}'' then Some (Some [], drop 2 s)
      else if take 1 s = ''{'' then
        (case parseMembers (length s) (drop 1 s) [] of
           Some (m, rest) \<Rightarrow> Some (Some m, rest)
         | None \<Rightarrow> None)
      else None)"

fun parseSlots ::
  "nat \<Rightarrow> string \<Rightarrow> (string \<times> jvalue) list option list \<Rightarrow>
   (string \<times> jvalue) list option list option" where
  "parseSlots 0 s ms = None"
| "parseSlots (Suc fuel) s ms =
     (case parseSlot s of
        Some (m, c # rest) \<Rightarrow>
          if c = CHR '','' then parseSlots fuel rest (ms @ [m])
          else if c = CHR '']'' \<and> rest = [] then Some (ms @ [m])
          else None
      | _ \<Rightarrow> None)"

definition parse :: "string \<Rightarrow> jdoc option" where
  "parse s =
     (if s = ''null'' then Some JNullDoc
      else if s = ''[]'' then Some (JArray [])
      else if take 1 s = ''['' then map_option JArray (parseSlots (length s) (drop 1 s) [])
      else
        (case parseSlot s of
           Some (Some m, []) \<Rightarrow> Some (JObject m)
         | _ \<Rightarrow> None))"

text \<open>
  The decoder of the stand-in works on the destination, as \<open>json.Unmarshal\<close> does.
  It knows the destination's struct type by its JSON names: one pair for each field
  the decoder may write, the JSON name (the name in the field's \<open>json\<close> tag, or the
  field's own name without a tag) and the name of the field. A key selects the field
  with that JSON name, or else a field whose JSON name differs only by the case of
  its letters; a key that selects no field is skipped.
\<close>

type_synonym jsonNames = "(string \<times> string) list"

definition lowerCase :: "char \<Rightarrow> char" where
  "lowerCase c =
     (case map_of (zip ''ABCDEFGHIJKLMNOPQRSTUVWXYZ'' ''abcdefghijklmnopqrstuvwxyz'') c of
        Some l \<Rightarrow> l
      | None \<Rightarrow> c)"

definition fieldFor :: "jsonNames \<Rightarrow> string \<Rightarrow> string option" where
  "fieldFor names k =
     (case map_of names k of
        Some f \<Rightarrow> Some f
      | None \<Rightarrow> map_of (map (\<lambda>(j, f). (map lowerCase j, f)) names) (map lowerCase k))"

text \<open>
  A member value stored into a field that holds \<open>old\<close>: \<open>null\<close> changes nothing, a
  value of the field's type is stored (an integer within the range of \<open>int64\<close>), and
  any other value is a type error (\<open>None\<close>), which leaves the field as it is.
\<close>

fun storeValue :: "jvalue \<Rightarrow> fval \<Rightarrow> fval option" where
  "storeValue JNull old = Some old"
| "storeValue (JString s) (VStr t) = Some (VStr s)"
| "storeValue (JBool b) (VBool c) = Some (VBool b)"
| "storeValue (JInt i) (VInt j) =
     (if - (2 ^ 63) \<le> i \<and> i < 2 ^ 63 then Some (VInt i) else None)"
| "storeValue v old = None"

text \<open>
  An object decoded into a struct: the members in order, a later member for the same
  field overwriting an earlier one. The flag says that no type error occurred; after
  a type error the decoder goes on and reports the error at the end.
\<close>

fun decodeMembers :: "jsonNames \<Rightarrow> (string \<times> jvalue) list \<Rightarrow> row \<Rightarrow> row \<times> bool" where
  "decodeMembers names [] r = (r, True)"
| "decodeMembers names ((k, v) # ms) r =
     (case fieldFor names k of
        None \<Rightarrow> decodeMembers names ms r
      | Some f \<Rightarrow>
          (case storeValue v (r f) of
             None \<Rightarrow> (fst (decodeMembers names ms r), False)
           | Some w \<Rightarrow> decodeMembers names ms (r(f := w))))"

fun decodeSlot :: "jsonNames \<Rightarrow> (string \<times> jvalue) list option \<Rightarrow> row \<Rightarrow> row \<times> bool" where
  "decodeSlot names None r = (r, True)"
| "decodeSlot names (Some ms) r = decodeMembers names ms r"

text \<open>
  An array decoded into a slice of structs whose capacity is its length: a slot is
  decoded into the element the slice has at that position, or into a new zero element
  \<open>z\<close> beyond its length; the slice ends up with one element per slot.
\<close>

fun decodeSlice ::
  "jsonNames \<Rightarrow> (string \<times> jvalue) list option list \<Rightarrow> row list \<Rightarrow> row \<Rightarrow> row list \<times> bool" where
  "decodeSlice names [] rs z = ([], True)"
| "decodeSlice names (s # ss) [] z =
     (let (r, ok) = decodeSlot names s z;
          (rest, ok') = decodeSlice names ss [] z
      in (r # rest, ok \<and> ok'))"
| "decodeSlice names (s # ss) (x # xs) z =
     (let (r, ok) = decodeSlot names s x;
          (rest, ok') = decodeSlice names ss xs z
      in (r # rest, ok \<and> ok'))"

text \<open>
  An array decoded into an array of structs: the length is fixed, the slots beyond it
  are skipped and the elements without a slot are set to zero.
\<close>

fun decodeArray ::
  "jsonNames \<Rightarrow> (string \<times> jvalue) list option list \<Rightarrow> row list \<Rightarrow> row \<Rightarrow> row list \<times> bool" where
  "decodeArray names ss [] z = ([], True)"
| "decodeArray names [] (x # xs) z = (z # fst (decodeArray names [] xs z), True)"
| "decodeArray names (s # ss) (x # xs) z =
     (let (r, ok) = decodeSlot names s x;
          (rest, ok') = decodeArray names ss xs z
      in (r # rest, ok \<and> ok'))"

definition typeError :: "bool \<Rightarrow> error option" where
  "typeError ok = (if ok then None else Some (Err ''json: cannot unmarshal''))"

text \<open>
  A document decoded into the destination. \<open>null\<close> makes a slice nil and leaves a
  struct or an array as it is. A document of the wrong shape is a type error. The
  stand-in does not decode into destinations of other kinds: it reports a type error
  for them.
\<close>

fun decodeDoc :: "jsonNames \<Rightarrow> jdoc \<Rightarrow> gvalue \<Rightarrow> gvalue \<times> error option" where
  "decodeDoc names JNullDoc (VSlice z rs) = (VSlice z [], None)"
| "decodeDoc names JNullDoc dest = (dest, None)"
| "decodeDoc names (JObject ms) (VStruct r) =
     (let (r', ok) = decodeMembers names ms r in (VStruct r', typeError ok))"
| "decodeDoc names (JArray ss) (VSlice z rs) =
     (let (rs', ok) = decodeSlice names ss rs z in (VSlice z rs', typeError ok))"
| "decodeDoc names (JArray ss) (VArray z rs) =
     (let (rs', ok) = decodeArray names ss rs z in (VArray z rs', typeError ok))"
| "decodeDoc names doc dest = (dest, typeError False)"

text \<open>
  The stand-in as a codec, for destinations of the struct type with the JSON names
  \<open>names\<close>. An argument that is not a pointer is refused, and a payload that does
  not parse is rejected, before anything is written.
\<close>

definition jsonFor :: "jsonNames \<Rightarrow> Codec" where
  "jsonFor names =
     \<lparr>Marshal = (\<lambda>v. (render v, None)),
      Unmarshal = (\<lambda>s ptrs dest.
        if ptrs = 0 then (dest, Some (Err ''json: Unmarshal(non-pointer)''))
        else
          (case parse s of
             None \<Rightarrow> (dest, Some (Err ''invalid character''))
           | Some doc \<Rightarrow> decodeDoc names doc dest))\<rparr>"

text \<open>
  The model \<open>User\<close> with the fields \<open>Name\<close> (a string) and \<open>Gender\<close> (an \<open>int64\<close>) and no
  \<open>json\<close> tags, and the same model with the tags \<open>json:user_name\<close> on \<open>Name\<close> and
  \<open>json:gender\<close> on \<open>Gender\<close>, as models that are also served over an API have them.
\<close>

definition sampleJson :: Codec where
  "sampleJson = jsonFor [(''Name'', ''Name''), (''Gender'', ''Gender'')]"

definition taggedJson :: Codec where
  "taggedJson = jsonFor [(''user_name'', ''Name''), (''gender'', ''Gender'')]"

text \<open>
  A \<open>Marshal\<close> that reports an error, as \<open>encoding/json\<close> does for a value it cannot
  encode (a NaN or infinite float, a channel, a failing \<open>MarshalJSON\<close>): it returns
  no bytes and the error.
\<close>

definition failingJson :: Codec where
  "failingJson =
     \<lparr>Marshal = (\<lambda>v. ([], Some (Err ''json: unsupported value''))),
      Unmarshal = Unmarshal sampleJson\<rparr>"

text \<open>A codec of the user's own, whose payloads are not JSON.\<close>

definition countingCodec :: Codec where
  "countingCodec =
     \<lparr>Marshal = (\<lambda>v. (case v of ValueData m \<Rightarrow> ''one'' | ValueArrData ms \<Rightarrow> ''many'', None)),
      Unmarshal = (\<lambda>s ptrs dest. (dest, None))\<rparr>"

text \<open>
  The other collaborators: the statement is built as it stands, the database returns
  the rows it is given here, \<open>Scan\<close> counts them, \<open>Explain\<close> prints the statement, and
  both registrations succeed.
\<close>

definition sampleExt :: "Codec \<Rightarrow> extern" where
  "sampleExt js =
     \<lparr>BuildQuerySQL = (\<lambda>db. (SQL db, Vars db, None)),
      QueryContext = (\<lambda>sql vars. ([], None)),
      Scan = (\<lambda>rows dest. (dest, int (length rows), None)),
      Explain = (\<lambda>sql vars. sql),
      json = js,
      CallbackReplace = (\<lambda>n. None),
      CallbackRegister = (\<lambda>n m. None)\<rparr>"

text \<open>Three stores: an empty one, one that holds a payload, one that is down.\<close>

definition emptyStore :: CacheKV where
  "emptyStore = \<lparr>Get = (\<lambda>k. (False, [], None)), Set = (\<lambda>k v e. None)\<rparr>"

definition storeWith :: "string \<Rightarrow> CacheKV" where
  "storeWith payload = \<lparr>Get = (\<lambda>k. (True, payload, None)), Set = (\<lambda>k v e. None)\<rparr>"

definition brokenStore :: CacheKV where
  "brokenStore =
     \<lparr>Get = (\<lambda>k. (False, [], Some (Err ''connection refused''))),
      Set = (\<lambda>k v e. Some (Err ''connection refused''))\<rparr>"

text \<open>
  The types \<open>main.User\<close>, \<open>other.User\<close> (another package's type of the same name),
  \<open>main.Pet\<close>, and the unnamed types \<open>*T\<close> and \<open>[]T\<close>.
\<close>

definition userType :: rtype where
  "userType = RType ''main'' ''User'' SStruct"

definition otherUserType :: rtype where
  "otherUserType = RType ''other'' ''User'' SStruct"

definition petType :: rtype where
  "petType = RType ''main'' ''Pet'' SStruct"

definition ptrTo :: "rtype \<Rightarrow> rtype" where
  "ptrTo t = RType [] [] (SPtr t)"

definition sliceOf :: "rtype \<Rightarrow> rtype" where
  "sliceOf t = RType [] [] (SSlice t)"

text \<open>The schema of \<open>User\<close>, two users by name and gender, and the zero user \<open>user [] 0\<close>.\<close>

definition userFields :: "Field list" where
  "userFields = [fieldNamed ''Name'', fieldNamed ''Gender'']"

definition user :: "string \<Rightarrow> int \<Rightarrow> row" where
  "user name gender = (\<lambda>n. if n = ''Name'' then VStr name else VInt (if n = ''Gender'' then gender else 0))"

text \<open>The plugin as \<open>GormCache(store, 5, Models(new(User)))\<close> builds it.\<close>

definition userCacher :: "extern \<Rightarrow> CacheKV \<Rightarrow> GormCacher" where
  "userCacher ext store =
     \<lparr>kv = store,
      queryAfterRegisterName = ''gorm-cache:after_query'',
      modelNames = [''User'' \<mapsto> True],
      exp = 5,
      cacheKeyFunc = (\<lambda>db. Explain ext (SQL db) (Vars db)),
      codec = stdJsonCodec ext\<rparr>"

text \<open>
  A read with the destination passed as a pointer to it: of one user, of a slice of
  users, or a count.
\<close>

definition findDB :: "rtype \<Rightarrow> gvalue \<Rightarrow> DB" where
  "findDB t dest =
     \<lparr>DryRun = False, Error = None, RowsAffected = 0,
      SQL = ''SELECT * FROM users'', Vars = [],
      nocachectx = False, Schema = Some userFields,
      DestType = t, ReflectValue = dest, DestPtrs = 1, calls = []\<rparr>"

section \<open>Initialization\<close>

text \<open>
  C9. When no model name is registered, \<open>Initialize\<close> returns a cache-layer error
  (an \<open>ErrGormCache\<close>) and has asked for no callback registration.
\<close>

theorem Initialize_without_models:
  assumes "dom (modelNames g) = {}"
  shows "Initialize ext g =
           (Some (ErrGormCache (Err ''call `Models` to add model that needs to be cached'')), [])"
  using assms by (simp add: Initialize_def NewErrGormCache_def)

text \<open>The plugin built with \<open>Models()\<close>, as in the first README, and its initialization.\<close>

theorem Initialize_without_models_witness:
  "GormCache (sampleExt sampleJson) emptyStore 5 [Models []]
     = Some ((userCacher (sampleExt sampleJson) emptyStore)\<lparr>modelNames := Map.empty\<rparr>) \<and>
   dom (modelNames ((userCacher (sampleExt sampleJson) emptyStore)\<lparr>modelNames := Map.empty\<rparr>)) = {} \<and>
   Initialize (sampleExt sampleJson) ((userCacher (sampleExt sampleJson) emptyStore)\<lparr>modelNames := Map.empty\<rparr>)
     = (Some (ErrGormCache (Err ''call `Models` to add model that needs to be cached'')), [])"
proof -
  have h: "dom (modelNames ((userCacher (sampleExt sampleJson) emptyStore)\<lparr>modelNames := Map.empty\<rparr>)) = {}"
    by simp
  have b: "GormCache (sampleExt sampleJson) emptyStore 5 [Models []]
     = Some ((userCacher (sampleExt sampleJson) emptyStore)\<lparr>modelNames := Map.empty\<rparr>)"
    by (simp add: GormCache_def Models_def userCacher_def PluginName_def)
  show ?thesis
    using h b Initialize_without_models [OF h, of "sampleExt sampleJson"] by simp
qed

section \<open>Eligibility\<close>

lemma addModels_names:
  "addModels models m = Some names \<Longrightarrow>
   names k \<noteq> None \<longleftrightarrow> (m k \<noteq> None \<or> (\<exists>T. Some T \<in> set models \<and> TName (structType T) = k))"
proof (induction models arbitrary: m)
  case Nil
  then show ?case by simp
next
  case (Cons a models)
  show ?case
  proof (cases a)
    case None
    with Cons.prems show ?thesis by simp
  next
    case (Some item)
    with Cons.prems have "addModels models (m(TName (structType item) \<mapsto> True)) = Some names"
      by simp
    from Cons.IH [OF this]
    have "names k \<noteq> None \<longleftrightarrow>
            ((m(TName (structType item) \<mapsto> True)) k \<noteq> None \<or>
             (\<exists>T. Some T \<in> set models \<and> TName (structType T) = k))" .
    then show ?thesis
      using Some by (cases "k = TName (structType item)") auto
  qed
qed

lemma structType_ptr: "structType (RType p n (SPtr t)) = structType t"
  by (simp add: structType_def)

lemma elemLoop_ptr: "elemLoop (RType p n (SPtr e)) = ptrLoop e"
  by (induction e arbitrary: p n rule: ptrLoop.induct) simp_all

text \<open>
  What \<open>structType\<close> unwraps: the pointers around the value, then one slice or array
  layer, then the pointers around its element. A slice of slices stays a slice.
\<close>

lemma structType_unwraps:
  "structType t =
     (case Shape (ptrLoop t) of
        SSlice e \<Rightarrow> ptrLoop e
      | SArray k e \<Rightarrow> ptrLoop e
      | _ \<Rightarrow> ptrLoop t)"
proof (cases "ptrLoop t")
  case (RType p n sh)
  show ?thesis
  proof (cases sh)
    case (SSlice e)
    then show ?thesis
      using RType elemLoop_ptr by (cases e rule: ptrLoop.cases) (simp_all add: structType_def)
  next
    case (SArray k e)
    then show ?thesis
      using RType elemLoop_ptr by (cases e rule: ptrLoop.cases) (simp_all add: structType_def)
  qed (simp_all add: RType structType_def)
qed

text \<open>
  C10. Whether a read is cacheable is decided by the bare name of \<open>structType\<close> of its
  destination alone: it is cacheable exactly when that name is the name \<open>structType\<close>
  gives for one of the values passed to \<open>Models\<close>; the package path plays no part.
\<close>

theorem canCache_by_bare_name:
  assumes "addModels models Map.empty = Some (modelNames g)"
  shows "canCache g db \<longleftrightarrow>
           (\<exists>T. Some T \<in> set models \<and>
                TName (structType (DestType db)) = TName (structType T))"
  using addModels_names [OF assms, of "TName (structType (DestType db))"]
  by (auto simp: canCache_def Let_def)

text \<open>
  With \<open>Models(new(User))\<close> of package \<open>main\<close>, a read into \<open>[]*User\<close> of the package
  \<open>other\<close> is cacheable, and a read into a \<open>Pet\<close> is not.
\<close>

theorem canCache_by_bare_name_witness:
  "addModels [Some (ptrTo userType)] Map.empty
     = Some (modelNames (userCacher (sampleExt sampleJson) emptyStore)) \<and>
   structType (sliceOf (ptrTo otherUserType)) = otherUserType \<and>
   PkgPath otherUserType \<noteq> PkgPath userType \<and>
   canCache (userCacher (sampleExt sampleJson) emptyStore)
     (findDB (sliceOf (ptrTo otherUserType)) (VSlice (user [] 0) [])) \<and>
   \<not> canCache (userCacher (sampleExt sampleJson) emptyStore) (findDB petType (VStruct (user [] 0)))"
proof -
  have h: "addModels [Some (ptrTo userType)] Map.empty
     = Some (modelNames (userCacher (sampleExt sampleJson) emptyStore))"
    by (simp add: userCacher_def ptrTo_def userType_def structType_def)
  have t: "structType (sliceOf (ptrTo otherUserType)) = otherUserType"
    by (simp add: sliceOf_def ptrTo_def otherUserType_def structType_def)
  have u: "structType (ptrTo userType) = userType"
    by (simp add: ptrTo_def userType_def structType_def)
  have p: "structType petType = petType"
    by (simp add: petType_def structType_def)
  have n: "TName userType = ''User''" "TName otherUserType = ''User''" "TName petType = ''Pet''"
    "PkgPath otherUserType \<noteq> PkgPath userType"
    by (simp_all add: userType_def otherUserType_def petType_def)
  show ?thesis
    using h t n
      canCache_by_bare_name [OF h, of "findDB (sliceOf (ptrTo otherUserType)) (VSlice (user [] 0) [])"]
      canCache_by_bare_name [OF h, of "findDB petType (VStruct (user [] 0))"]
    by (simp add: findDB_def u p)
qed

section \<open>The read path\<close>

lemma AddError_fields [simp]:
  "DestType (AddError e db) = DestType db"
  "calls (AddError e db) = calls db"
  "nocachectx (AddError e db) = nocachectx db"
  "ReflectValue (AddError e db) = ReflectValue db"
  "RowsAffected (AddError e db) = RowsAffected db"
  "Schema (AddError e db) = Schema db"
  "DryRun (AddError e db) = DryRun db"
  by (simp_all add: AddError_def split: option.splits)

lemma AddError_Error:
  "Error (AddError (Some e) db) =
     (case Error db of None \<Rightarrow> Some e | Some e0 \<Rightarrow> Some (ErrJoin e0 e))"
  by (simp add: AddError_def split: option.splits)

lemma AddError_None [simp]: "AddError None db = db"
  by (simp add: AddError_def)

lemma buildQuerySQL_fields [simp]:
  "DestType (buildQuerySQL ext db) = DestType db"
  "calls (buildQuerySQL ext db) = calls db"
  "nocachectx (buildQuerySQL ext db) = nocachectx db"
  "ReflectValue (buildQuerySQL ext db) = ReflectValue db"
  "RowsAffected (buildQuerySQL ext db) = RowsAffected db"
  "Schema (buildQuerySQL ext db) = Schema db"
  by (simp_all add: buildQuerySQL_def split: prod.splits)

lemma canCache_DestType: "DestType db' = DestType db \<Longrightarrow> canCache g db' = canCache g db"
  by (simp add: canCache_def)

lemma queryFromDB_direct:
  "DestType (queryFromDB ext g db []) = DestType db"
  "nocachectx (queryFromDB ext g db []) = nocachectx db"
  "calls (queryFromDB ext g db []) = calls db @ [CallQueryContext (SQL db) (Vars db)]"
  by (simp_all add: queryFromDB_def Let_def split: prod.splits)

text \<open>
  C2. A read whose destination is not cacheable makes no call to the store, neither
  in \<open>query\<close> nor in \<open>queryAfter\<close>: the two callbacks run without a panic, and the
  only call they add is the direct \<open>QueryContext\<close> (none at all for a dry run or a
  read that already carries an error).
\<close>

theorem ineligible_no_store_call:
  assumes "\<not> canCache g db"
  shows "\<exists>db'. query ext g db = Some db' \<and> queryAfter ext g db' = Some db' \<and>
           runQuery ext g db = Some db' \<and>
           filter isStoreCall (calls db') = filter isStoreCall (calls db) \<and>
           calls db' = calls db @
             (if DryRun db \<or> Error db \<noteq> None then []
              else [CallQueryContext (SQL (buildQuerySQL ext db)) (Vars (buildQuerySQL ext db))])"
proof (cases "DryRun db \<or> Error db \<noteq> None")
  case True
  then have q: "query ext g db = Some db"
    by (auto simp: query_def)
  have a: "queryAfter ext g db = Some db"
    using assms by (simp add: queryAfter_def)
  show ?thesis
    using True q a by (simp add: runQuery_def)
next
  case False
  define db1 where "db1 = buildQuerySQL ext db"
  define db2 where "db2 = queryFromDB ext g db1 []"
  have n: "\<not> canCache g db1"
    using assms canCache_DestType [of db1 db g] by (simp add: db1_def)
  have q: "query ext g db = Some db2"
    using False n by (simp add: query_def db1_def db2_def Let_def)
  have "\<not> canCache g db2"
    using n canCache_DestType [of db2 db1 g] by (simp add: db2_def queryFromDB_direct)
  then have a: "queryAfter ext g db2 = Some db2"
    by (simp add: queryAfter_def)
  have c: "calls db2 = calls db @ [CallQueryContext (SQL db1) (Vars db1)]"
    by (simp add: db2_def queryFromDB_direct db1_def)
  show ?thesis
    using False q a c by (simp add: runQuery_def db1_def)
qed

text \<open>A read into a \<open>Pet\<close> through the plugin that caches \<open>User\<close>.\<close>

theorem ineligible_no_store_call_witness:
  "\<not> canCache (userCacher (sampleExt sampleJson) brokenStore) (findDB petType (VStruct (user [] 0))) \<and>
   (\<exists>db'. runQuery (sampleExt sampleJson) (userCacher (sampleExt sampleJson) brokenStore)
            (findDB petType (VStruct (user [] 0))) = Some db' \<and>
          calls db' = [CallQueryContext ''SELECT * FROM users'' []])"
proof -
  have h: "\<not> canCache (userCacher (sampleExt sampleJson) brokenStore) (findDB petType (VStruct (user [] 0)))"
    by (simp add: canCache_def userCacher_def findDB_def petType_def structType_def)
  have s: "SQL (buildQuerySQL (sampleExt sampleJson) (findDB petType (VStruct (user [] 0)))) = ''SELECT * FROM users''"
    "Vars (buildQuerySQL (sampleExt sampleJson) (findDB petType (VStruct (user [] 0)))) = []"
    by (simp_all add: buildQuerySQL_def sampleExt_def findDB_def)
  have d: "\<not> DryRun (findDB petType (VStruct (user [] 0)))" "Error (findDB petType (VStruct (user [] 0))) = None"
    "calls (findDB petType (VStruct (user [] 0))) = []"
    by (simp_all add: findDB_def)
  show ?thesis
    using h ineligible_no_store_call [OF h, of "sampleExt sampleJson"] by (auto simp: s d)
qed

text \<open>
  C5. When the store's \<open>Get\<close> returns an error for a cacheable read, the read ends
  with that error wrapped in an \<open>ErrGormCache\<close> (joined to the error
  \<open>BuildQuerySQL\<close> may have added before), \<open>QueryContext\<close> is not called, the
  destination and the row count are untouched, and \<open>queryAfter\<close> does nothing.
\<close>

theorem store_error_ends_read:
  assumes "\<not> DryRun db" and "Error db = None"
    and "canCache g (buildQuerySQL ext db)"
    and "Get (kv g) (cacheKeyFunc g (buildQuerySQL ext db)) = (ok, cached, Some e)"
  shows "\<exists>db'. query ext g db = Some db' \<and> queryAfter ext g db' = Some db' \<and>
           Error db' =
             (case Error (buildQuerySQL ext db) of
                None \<Rightarrow> Some (ErrGormCache e)
              | Some e0 \<Rightarrow> Some (ErrJoin e0 (ErrGormCache e))) \<and>
           calls db' = calls db @ [CallGet (cacheKeyFunc g (buildQuerySQL ext db))] \<and>
           filter isQueryCall (calls db') = filter isQueryCall (calls db) \<and>
           ReflectValue db' = ReflectValue db \<and> RowsAffected db' = RowsAffected db"
proof -
  define db1 where "db1 = buildQuerySQL ext db"
  define db2 where "db2 = db1\<lparr>calls := calls db1 @ [CallGet (cacheKeyFunc g db1)]\<rparr>"
  define db' where "db' = AddError (Some (ErrGormCache e)) db2"
  have q: "query ext g db = Some db'"
    using assms by (simp add: query_def Let_def db1_def db2_def db'_def NewErrGormCache_def)
  have e: "Error db' =
             (case Error db1 of
                None \<Rightarrow> Some (ErrGormCache e)
              | Some e0 \<Rightarrow> Some (ErrJoin e0 (ErrGormCache e)))"
    by (simp add: db'_def AddError_Error db2_def)
  then have "Error db' \<noteq> None"
    by (simp split: option.splits)
  then have a: "queryAfter ext g db' = Some db'"
    by (simp add: queryAfter_def)
  have c: "calls db' = calls db @ [CallGet (cacheKeyFunc g db1)]"
    by (simp add: db'_def db2_def db1_def)
  have r: "ReflectValue db' = ReflectValue db" "RowsAffected db' = RowsAffected db"
    by (simp_all add: db'_def db2_def db1_def)
  show ?thesis
    using q a e c r by (simp add: db1_def)
qed

text \<open>A read of one user while the store is down.\<close>

theorem store_error_ends_read_witness:
  "\<not> DryRun (findDB userType (VStruct (user [] 0))) \<and>
   Error (findDB userType (VStruct (user [] 0))) = None \<and>
   canCache (userCacher (sampleExt sampleJson) brokenStore)
     (buildQuerySQL (sampleExt sampleJson) (findDB userType (VStruct (user [] 0)))) \<and>
   (\<exists>db'. query (sampleExt sampleJson) (userCacher (sampleExt sampleJson) brokenStore)
            (findDB userType (VStruct (user [] 0))) = Some db' \<and>
          Error db' = Some (ErrGormCache (Err ''connection refused'')) \<and>
          calls db' = [CallGet ''SELECT * FROM users''])"
proof -
  let ?ext = "sampleExt sampleJson"
  let ?g = "userCacher ?ext brokenStore"
  let ?db = "findDB userType (VStruct (user [] 0))"
  have b: "buildQuerySQL ?ext ?db = ?db"
    by (simp add: buildQuerySQL_def sampleExt_def findDB_def)
  have h1: "\<not> DryRun ?db" and h2: "Error ?db = None"
    by (simp_all add: findDB_def)
  have h3: "canCache ?g (buildQuerySQL ?ext ?db)"
    by (auto simp: b canCache_def userCacher_def findDB_def userType_def structType_def)
  have k: "cacheKeyFunc ?g ?db = ''SELECT * FROM users''"
    by (simp add: userCacher_def sampleExt_def findDB_def)
  have h4: "Get (kv ?g) (cacheKeyFunc ?g (buildQuerySQL ?ext ?db))
              = (False, [], Some (Err ''connection refused''))"
    by (simp add: userCacher_def brokenStore_def)
  have c: "calls ?db = []"
    by (simp add: findDB_def)
  show ?thesis
    using h1 h2 h3 store_error_ends_read [OF h1 h2 h3 h4] by (auto simp: b k h2 c)
qed

section \<open>The result of the encode step\<close>

text \<open>
  C8, as the code has it. With a schema, \<open>queryResult\<close> returns without a panic.
  For a destination that is neither a struct nor a slice or an array it returns
  \<open>ok = false\<close>, an empty payload and no error. For a struct, a slice or an array it
  returns \<open>ok = true\<close> together with exactly the payload and the error that \<open>Marshal\<close>
  returned, so a failure of \<open>Marshal\<close> comes with \<open>ok = true\<close>.
\<close>

theorem queryResult_ok_is_shape:
  assumes "Schema db = Some flds"
  shows "\<exists>ok val err db'. queryResult ext g db = Some ((ok, val, err), db') \<and>
           (ok \<longleftrightarrow> ValueKind (ReflectValue db) \<in> {Struct, Slice, Array}) \<and>
           (\<not> ok \<longrightarrow> val = [] \<and> err = None) \<and>
           (ok \<longrightarrow> db' = db \<and>
              (val, err) =
                Marshal (json ext)
                  (case ReflectValue db of
                     VStruct r \<Rightarrow> ValueData (structFields flds r [])
                   | VSlice z elems \<Rightarrow> ValueArrData (sliceData flds elems)
                   | VArray z elems \<Rightarrow> ValueArrData (sliceData flds elems)
                   | VOther s \<Rightarrow> ValueData []))"
proof -
  define v where "v = (case ReflectValue db of
                     VStruct r \<Rightarrow> ValueData (structFields flds r [])
                   | VSlice z elems \<Rightarrow> ValueArrData (sliceData flds elems)
                   | VArray z elems \<Rightarrow> ValueArrData (sliceData flds elems)
                   | VOther s \<Rightarrow> ValueData [])"
  obtain val err where m: "Marshal (json ext) v = (val, err)"
    by (cases "Marshal (json ext) v")
  show ?thesis
  proof (cases "ReflectValue db")
    case (VStruct r)
    then have "queryResult ext g db = Some ((True, val, err), db)"
      using assms m by (simp add: queryResult_def v_def)
    then show ?thesis
      using m VStruct by (auto simp: v_def)
  next
    case (VSlice z elems)
    then have "queryResult ext g db = Some ((True, val, err), db)"
      using assms m by (simp add: queryResult_def v_def)
    then show ?thesis
      using m VSlice by (auto simp: v_def)
  next
    case (VArray z elems)
    then have "queryResult ext g db = Some ((True, val, err), db)"
      using assms m by (simp add: queryResult_def v_def)
    then show ?thesis
      using m VArray by (auto simp: v_def)
  next
    case (VOther s)
    then show ?thesis
      using assms by (auto simp: queryResult_def)
  qed
qed

text \<open>A count: the destination is an \<open>int64\<close>.\<close>

theorem queryResult_ok_is_shape_witness:
  "Schema (findDB (RType [] ''int64'' (SOther ''int64'')) (VOther ''int64'')) = Some userFields \<and>
   (\<exists>db'. queryResult (sampleExt sampleJson) (userCacher (sampleExt sampleJson) emptyStore)
            (findDB (RType [] ''int64'' (SOther ''int64'')) (VOther ''int64''))
          = Some ((False, [], None), db'))"
proof -
  have h: "Schema (findDB (RType [] ''int64'' (SOther ''int64'')) (VOther ''int64'')) = Some userFields"
    by (simp add: findDB_def)
  have k: "ValueKind (ReflectValue (findDB (RType [] ''int64'' (SOther ''int64'')) (VOther ''int64'')))
             \<notin> {Struct, Slice, Array}"
    by (simp add: findDB_def)
  show ?thesis
    using h k
      queryResult_ok_is_shape [OF h, of "sampleExt sampleJson"
        "userCacher (sampleExt sampleJson) emptyStore"]
    by auto
qed

text \<open>
  \<open>ok = true\<close> does come with an error: when \<open>Marshal\<close> reports an error for a
  struct, \<open>queryResult\<close> returns \<open>ok = true\<close> and that error.
\<close>

theorem queryResult_ok_with_error:
  "queryResult (sampleExt failingJson) (userCacher (sampleExt failingJson) emptyStore)
     (findDB userType (VStruct (user ''Mike'' 1)))
   = Some ((True, [], Some (Err ''json: unsupported value'')),
           findDB userType (VStruct (user ''Mike'' 1)))"
  by (simp add: queryResult_def findDB_def sampleExt_def failingJson_def)

section \<open>The codec option\<close>

lemma codec_never_read:
  "queryResult ext (g\<lparr>codec := c\<rparr>) db = queryResult ext g db"
  "unmarshalToDB ext (g\<lparr>codec := c\<rparr>) cached db = unmarshalToDB ext g cached db"
  by (simp_all add: queryResult_def unmarshalToDB_def)

lemma structFields_user:
  "structFields userFields (user ''Mike'' 1) [] = [(''Name'', VStr ''Mike''), (''Gender'', VInt 1)]"
  by (simp add: userFields_def fieldNamed_def user_def isZeroValue_def)

lemma jsonFor_calls:
  "Marshal (json (sampleExt (jsonFor names))) v = (render v, None)"
  "Unmarshal (json (sampleExt (jsonFor names))) s (Suc n) d =
     (case parse s of
        None \<Rightarrow> (d, Some (Err ''invalid character''))
      | Some doc \<Rightarrow> decodeDoc names doc d)"
  by (simp_all add: sampleExt_def jsonFor_def)

lemma parse_no_json: "parse ''one'' = None" "parse ''oops'' = None"
  by (simp_all add: parse_def parseSlot_def parseValue_def parseNat_def quote_def digitValue_def)

text \<open>
  C1 on the code. The plugin is built with \<open>WithCodec(countingCodec)\<close>, whose
  \<open>Marshal\<close> of the field map of a user is \<open>one\<close>; the payload \<open>queryResult\<close> returns
  is nevertheless the JSON of \<open>encoding/json\<close>, and \<open>unmarshalToDB\<close> decodes with
  \<open>encoding/json\<close> as well.
\<close>

theorem WithCodec_not_used:
  "WithCodec countingCodec (userCacher (sampleExt sampleJson) emptyStore)
     = Some ((userCacher (sampleExt sampleJson) emptyStore)\<lparr>codec := countingCodec\<rparr>) \<and>
   fst (Marshal countingCodec (ValueData (structFields userFields (user ''Mike'' 1) []))) = ''one'' \<and>
   queryResult (sampleExt sampleJson)
     ((userCacher (sampleExt sampleJson) emptyStore)\<lparr>codec := countingCodec\<rparr>)
     (findDB userType (VStruct (user ''Mike'' 1)))
   = Some ((True, render (ValueData [(''Name'', VStr ''Mike''), (''Gender'', VInt 1)]), None),
           findDB userType (VStruct (user ''Mike'' 1))) \<and>
   render (ValueData [(''Name'', VStr ''Mike''), (''Gender'', VInt 1)]) \<noteq> ''one'' \<and>
   unmarshalToDB (sampleExt sampleJson)
     ((userCacher (sampleExt sampleJson) emptyStore)\<lparr>codec := countingCodec\<rparr>)
     ''one'' (findDB userType (VStruct (user [] 0)))
   = Some ((findDB userType (VStruct (user [] 0)))\<lparr>Error := Some (Err ''invalid character'')\<rparr>)"
proof -
  have a: "WithCodec countingCodec (userCacher (sampleExt sampleJson) emptyStore)
     = Some ((userCacher (sampleExt sampleJson) emptyStore)\<lparr>codec := countingCodec\<rparr>)"
    by (simp add: WithCodec_def)
  have b: "fst (Marshal countingCodec (ValueData (structFields userFields (user ''Mike'' 1) []))) = ''one''"
    by (simp add: countingCodec_def)
  have s: "Schema (findDB userType (VStruct (user ''Mike'' 1))) = Some userFields"
    "ReflectValue (findDB userType (VStruct (user ''Mike'' 1))) = VStruct (user ''Mike'' 1)"
    by (simp_all add: findDB_def)
  have c: "queryResult (sampleExt sampleJson)
     ((userCacher (sampleExt sampleJson) emptyStore)\<lparr>codec := countingCodec\<rparr>)
     (findDB userType (VStruct (user ''Mike'' 1)))
   = Some ((True, render (ValueData [(''Name'', VStr ''Mike''), (''Gender'', VInt 1)]), None),
           findDB userType (VStruct (user ''Mike'' 1)))"
    unfolding queryResult_def s sampleJson_def
    by (simp only: option.case gvalue.case Let_def structFields_user jsonFor_calls prod.case)
  have d: "render (ValueData [(''Name'', VStr ''Mike''), (''Gender'', VInt 1)]) \<noteq> ''one''"
    by simp
  have u: "Unmarshal (json (sampleExt sampleJson)) ''one'' (Suc 0) v = (v, Some (Err ''invalid character''))" for v
    unfolding sampleJson_def jsonFor_calls by (simp add: parse_no_json)
  have e: "unmarshalToDB (sampleExt sampleJson)
     ((userCacher (sampleExt sampleJson) emptyStore)\<lparr>codec := countingCodec\<rparr>)
     ''one'' (findDB userType (VStruct (user [] 0)))
   = Some ((findDB userType (VStruct (user [] 0)))\<lparr>Error := Some (Err ''invalid character'')\<rparr>)"
    by (simp add: unmarshalToDB_def u AddError_def findDB_def)
  show ?thesis
    using a b c d e by (intro conjI)
qed

section \<open>The cache hit\<close>

text \<open>
  C4, as the code has it. The destination is passed as a pointer to the struct, the
  slice or the array. On a hit (\<open>Get\<close> returns found and no error) the payload is
  handed to \<open>Unmarshal\<close>, what it has written is in the destination, and
  \<open>QueryContext\<close> is not called. When \<open>Unmarshal\<close> reports no error, \<open>RowsAffected\<close>
  is 1 for a struct and the number of elements for a slice or an array. When it
  reports an error, the read ends with an error and \<open>RowsAffected\<close> is left alone.
  (Decoding does not change the kind of the destination, which Go's typing
  guarantees.)
\<close>

theorem cache_hit_decodes:
  assumes "\<not> DryRun db" and "Error db = None" and "DestPtrs db = 1"
    and "canCache g (buildQuerySQL ext db)"
    and "Get (kv g) (cacheKeyFunc g (buildQuerySQL ext db)) = (True, cached, None)"
    and "Unmarshal (json ext) cached (DestPtrs db) (ReflectValue db) = (written, err)"
    and "ValueKind written = ValueKind (ReflectValue db)"
  shows "\<exists>db'. query ext g db = Some db' \<and>
           ReflectValue db' = written \<and>
           filter isQueryCall (calls db') = filter isQueryCall (calls db) \<and>
           (case err of
              None \<Rightarrow>
                RowsAffected db' =
                  (case written of
                     VStruct r \<Rightarrow> 1
                   | VSlice z rs \<Rightarrow> int (length rs)
                   | VArray z rs \<Rightarrow> int (length rs)
                   | VOther s \<Rightarrow> RowsAffected db) \<and>
                Error db' = Error (buildQuerySQL ext db)
            | Some e \<Rightarrow>
                RowsAffected db' = RowsAffected db \<and> Error db' \<noteq> None)"
proof -
  define db1 where "db1 = buildQuerySQL ext db"
  define db2 where "db2 = db1\<lparr>calls := calls db1 @ [CallGet (cacheKeyFunc g db1)]\<rparr>"
  have q: "query ext g db = unmarshalToDB ext g cached db2"
    using assms(1,2,4,5) by (simp add: query_def Let_def db1_def db2_def)
  have p: "DestPtrs db2 = Suc 0" "DestPtrs db2 = DestPtrs db"
    using assms(3) by (simp_all add: db2_def db1_def buildQuerySQL_def AddError_def split: prod.splits option.splits)
  have u: "Unmarshal (json ext) cached (DestPtrs db2) (ReflectValue db2) = (written, err)"
    using assms(6) p(2) by (simp add: db2_def db1_def)
  have k: "ValueKind (ReflectValue db2) = ValueKind written"
    using assms(7) by (simp add: db2_def db1_def)
  have c: "filter isQueryCall (calls db2) = filter isQueryCall (calls db)"
    by (simp add: db2_def db1_def)
  have r: "RowsAffected db2 = RowsAffected db" "Error db2 = Error db1"
    by (simp_all add: db2_def db1_def)
  show ?thesis
  proof (cases err)
    case (Some e)
    have "unmarshalToDB ext g cached db2 = Some (AddError (Some e) (db2\<lparr>ReflectValue := written\<rparr>))"
      using u Some by (simp add: unmarshalToDB_def)
    moreover have "Error (AddError (Some e) (db2\<lparr>ReflectValue := written\<rparr>)) \<noteq> None"
      by (simp add: AddError_Error split: option.splits)
    ultimately show ?thesis
      using q c r Some by simp
  next
    case None
    show ?thesis
    proof (cases written)
      case (VStruct r')
      then show ?thesis
        using q u k p c r None by (simp add: unmarshalToDB_def db1_def)
    next
      case (VSlice z rs)
      then show ?thesis
        using q u k p c r None by (simp add: unmarshalToDB_def db1_def)
    next
      case (VArray z rs)
      then show ?thesis
        using q u k p c r None by (simp add: unmarshalToDB_def db1_def)
    next
      case (VOther s)
      then show ?thesis
        using q u k p c r None by (simp add: unmarshalToDB_def db1_def)
    qed
  qed
qed

lemma parse_two_users:
  "parse (render (ValueArrData [Some [(''Name'', VStr ''Ann'')], None]))
     = Some (JArray [Some [(''Name'', JString ''Ann'')], None])"
  by (simp add: parse_def parseSlot_def parseValue_def parseNat_def quote_def backslash_def
        digitValue_def renderString_def escapeChar_def sortMembers_def)

lemma decode_two_users:
  "decodeDoc [(''Name'', ''Name''), (''Gender'', ''Gender'')]
     (JArray [Some [(''Name'', JString ''Ann'')], None]) (VSlice (user [] 0) [])
   = (VSlice (user [] 0) [(user [] 0)(''Name'' := VStr ''Ann''), user [] 0], None)"
  by (simp add: fieldFor_def typeError_def user_def)

text \<open>
  The store holds the payload of two users, the second with all fields zero; the
  read is into an empty slice of users.
\<close>

theorem cache_hit_decodes_witness:
  "\<not> DryRun (findDB (sliceOf userType) (VSlice (user [] 0) [])) \<and>
   Error (findDB (sliceOf userType) (VSlice (user [] 0) [])) = None \<and>
   DestPtrs (findDB (sliceOf userType) (VSlice (user [] 0) [])) = 1 \<and>
   canCache
     (userCacher (sampleExt sampleJson)
        (storeWith (render (ValueArrData [Some [(''Name'', VStr ''Ann'')], None]))))
     (buildQuerySQL (sampleExt sampleJson) (findDB (sliceOf userType) (VSlice (user [] 0) []))) \<and>
   (\<exists>db'. query (sampleExt sampleJson)
            (userCacher (sampleExt sampleJson)
               (storeWith (render (ValueArrData [Some [(''Name'', VStr ''Ann'')], None]))))
            (findDB (sliceOf userType) (VSlice (user [] 0) [])) = Some db' \<and>
          ReflectValue db' =
            VSlice (user [] 0) [(user [] 0)(''Name'' := VStr ''Ann''), user [] 0] \<and>
          RowsAffected db' = 2 \<and>
          filter isQueryCall (calls db') = [])"
proof -
  let ?ext = "sampleExt sampleJson"
  let ?p = "render (ValueArrData [Some [(''Name'', VStr ''Ann'')], None])"
  let ?g = "userCacher ?ext (storeWith ?p)"
  let ?db = "findDB (sliceOf userType) (VSlice (user [] 0) [])"
  let ?written = "VSlice (user [] 0) [(user [] 0)(''Name'' := VStr ''Ann''), user [] 0]"
  have b: "buildQuerySQL ?ext ?db = ?db"
    by (simp add: buildQuerySQL_def sampleExt_def findDB_def)
  have h1: "\<not> DryRun ?db" and h2: "Error ?db = None" and h3: "DestPtrs ?db = 1"
    by (simp_all add: findDB_def)
  have h4: "canCache ?g (buildQuerySQL ?ext ?db)"
    unfolding b
    by (auto simp: canCache_def userCacher_def findDB_def userType_def sliceOf_def structType_def)
  have h5: "Get (kv ?g) (cacheKeyFunc ?g (buildQuerySQL ?ext ?db)) = (True, ?p, None)"
    by (simp add: userCacher_def storeWith_def)
  have rv: "ReflectValue ?db = VSlice (user [] 0) []"
    by (simp add: findDB_def)
  have rp: "DestPtrs ?db = Suc 0"
    by (simp add: findDB_def)
  have h6: "Unmarshal (json ?ext) ?p (DestPtrs ?db) (ReflectValue ?db) = (?written, None)"
    unfolding rv rp sampleJson_def jsonFor_calls parse_two_users
    by (simp only: option.case decode_two_users)
  have h7: "ValueKind ?written = ValueKind (ReflectValue ?db)"
    unfolding rv by simp
  have c: "calls ?db = []"
    by (simp add: findDB_def)
  show ?thesis
    using h1 h2 h3 h4 cache_hit_decodes [OF h1 h2 h3 h4 h5 h6 h7] by (auto simp: c)
qed

text \<open>
  A hit whose payload does not decode: nothing is decoded into the destination and
  \<open>RowsAffected\<close> stays 0 for a struct; the read ends with an error and without a
  call of \<open>QueryContext\<close>.
\<close>

theorem cache_hit_undecodable:
  "Get (storeWith ''oops'') ''SELECT * FROM users'' = (True, ''oops'', None) \<and>
   query (sampleExt sampleJson) (userCacher (sampleExt sampleJson) (storeWith ''oops''))
     (findDB userType (VStruct (user [] 0)))
   = Some ((findDB userType (VStruct (user [] 0)))
             \<lparr>Error := Some (Err ''invalid character''),
              calls := [CallGet ''SELECT * FROM users'']\<rparr>) \<and>
   RowsAffected ((findDB userType (VStruct (user [] 0)))
             \<lparr>Error := Some (Err ''invalid character''),
              calls := [CallGet ''SELECT * FROM users'']\<rparr>) = 0"
proof -
  let ?ext = "sampleExt sampleJson"
  let ?g = "userCacher ?ext (storeWith ''oops'')"
  let ?db = "findDB userType (VStruct (user [] 0))"
  have b: "buildQuerySQL ?ext ?db = ?db"
    by (simp add: buildQuerySQL_def sampleExt_def findDB_def)
  have h1: "\<not> DryRun ?db" and h2: "Error ?db = None"
    by (simp_all add: findDB_def)
  have h3: "canCache ?g ?db"
    by (auto simp: canCache_def userCacher_def findDB_def userType_def structType_def)
  have k: "cacheKeyFunc ?g ?db = ''SELECT * FROM users''"
    by (simp add: userCacher_def sampleExt_def findDB_def)
  have h4: "Get (kv ?g) ''SELECT * FROM users'' = (True, ''oops'', None)"
    by (simp add: userCacher_def storeWith_def)
  have u: "Unmarshal (json ?ext) ''oops'' (Suc 0) d = (d, Some (Err ''invalid character''))" for d
    unfolding sampleJson_def jsonFor_calls by (simp add: parse_no_json)
  have q: "query ?ext ?g ?db
             = unmarshalToDB ?ext ?g ''oops'' (?db\<lparr>calls := calls ?db @ [CallGet ''SELECT * FROM users'']\<rparr>)"
    using h1 h2 h3 h4 by (simp add: query_def b k Let_def)
  have "unmarshalToDB ?ext ?g ''oops'' (?db\<lparr>calls := calls ?db @ [CallGet ''SELECT * FROM users'']\<rparr>)
          = Some (?db\<lparr>Error := Some (Err ''invalid character''),
                       calls := [CallGet ''SELECT * FROM users'']\<rparr>)"
    by (simp add: unmarshalToDB_def u AddError_def findDB_def)
  with q show ?thesis
    by (simp add: storeWith_def findDB_def)
qed

lemma parse_mike:
  "parse (render (ValueData [(''Name'', VStr ''Mike''), (''Gender'', VInt 1)]))
     = Some (JObject [(''Gender'', JInt 1), (''Name'', JString ''Mike'')])"
  by (simp add: parse_def parseSlot_def parseValue_def parseNat_def quote_def backslash_def
        digitValue_def renderString_def escapeChar_def sortMembers_def)

lemma decode_mike:
  "decodeDoc [(''Name'', ''Name''), (''Gender'', ''Gender'')]
     (JObject [(''Gender'', JInt 1), (''Name'', JString ''Mike'')]) (VStruct (user [] 0))
   = (VStruct ((user [] 0)(''Gender'' := VInt 1, ''Name'' := VStr ''Mike'')), None)"
  by (simp add: fieldFor_def typeError_def user_def)

text \<open>
  The same hit with the destination passed as a pointer to a pointer
  (\<open>var u *User; db.First(&u)\<close>): the payload of Mike decodes, and then
  \<open>reflectValue.Set(elem)\<close> panics, because \<open>elem\<close> is the pointer and not the struct.
\<close>

lemma cache_hit_pointer_to_pointer:
  "query (sampleExt sampleJson)
     (userCacher (sampleExt sampleJson)
        (storeWith (render (ValueData [(''Name'', VStr ''Mike''), (''Gender'', VInt 1)]))))
     ((findDB userType (VStruct (user [] 0)))\<lparr>DestPtrs := 2\<rparr>)
   = None"
proof -
  let ?ext = "sampleExt sampleJson"
  let ?p = "render (ValueData [(''Name'', VStr ''Mike''), (''Gender'', VInt 1)])"
  let ?g = "userCacher ?ext (storeWith ?p)"
  let ?db = "(findDB userType (VStruct (user [] 0)))\<lparr>DestPtrs := 2\<rparr>"
  have b: "buildQuerySQL ?ext ?db = ?db"
    by (simp add: buildQuerySQL_def sampleExt_def findDB_def)
  have h1: "\<not> DryRun ?db" and h2: "Error ?db = None"
    by (simp_all add: findDB_def)
  have h3: "canCache ?g ?db"
    by (auto simp: canCache_def userCacher_def findDB_def userType_def structType_def)
  have h4: "Get (kv ?g) (cacheKeyFunc ?g ?db) = (True, ?p, None)"
    by (simp add: userCacher_def storeWith_def)
  have q: "query ?ext ?g ?db
             = unmarshalToDB ?ext ?g ?p (?db\<lparr>calls := calls ?db @ [CallGet (cacheKeyFunc ?g ?db)]\<rparr>)"
    using h1 h2 h3 h4 by (simp add: query_def b Let_def)
  have rv: "ReflectValue (?db\<lparr>calls := calls ?db @ [CallGet (cacheKeyFunc ?g ?db)]\<rparr>) = VStruct (user [] 0)"
    "DestPtrs (?db\<lparr>calls := calls ?db @ [CallGet (cacheKeyFunc ?g ?db)]\<rparr>) = Suc (Suc 0)"
    by (simp_all add: findDB_def)
  have u: "Unmarshal (json ?ext) ?p (Suc (Suc 0)) (VStruct (user [] 0))
             = (VStruct ((user [] 0)(''Gender'' := VInt 1, ''Name'' := VStr ''Mike'')), None)"
    unfolding sampleJson_def jsonFor_calls parse_mike
    by (simp only: option.case decode_mike)
  have "unmarshalToDB ?ext ?g ?p (?db\<lparr>calls := calls ?db @ [CallGet (cacheKeyFunc ?g ?db)]\<rparr>) = None"
    unfolding unmarshalToDB_def rv u by simp
  with q show ?thesis
    by simp
qed

section \<open>What the encode step writes\<close>

lemma readsField_ValueOf:
  "readsField f \<Longrightarrow> ValueOf f r = (r (Name f), isZeroValue (r (Name f)))"
  by (simp add: readsField_def fieldNamed_def)

lemma structFields_lookup:
  "list_all readsField flds \<Longrightarrow>
   map_of (structFields flds r m) n =
     (if n \<in> Name ` set flds \<and> \<not> isZeroValue (r n) then Some (r n) else map_of m n)"
proof (induction flds arbitrary: m)
  case Nil
  then show ?case by simp
next
  case (Cons f flds)
  then have f: "ValueOf f r = (r (Name f), isZeroValue (r (Name f)))"
    and t: "list_all readsField flds"
    by (simp_all add: readsField_ValueOf)
  show ?case
    using Cons.IH [OF t] by (auto simp: f update_conv')
qed

lemma slotFields_lookup:
  "list_all readsField flds \<Longrightarrow>
   map_of (case slotFields flds r slot of None \<Rightarrow> [] | Some m \<Rightarrow> m) n =
     (if n \<in> Name ` set flds \<and> \<not> isZeroValue (r n) then Some (r n)
      else map_of (case slot of None \<Rightarrow> [] | Some m \<Rightarrow> m) n)"
proof (induction flds arbitrary: slot)
  case Nil
  then show ?case by simp
next
  case (Cons f flds)
  then have f: "ValueOf f r = (r (Name f), isZeroValue (r (Name f)))"
    and t: "list_all readsField flds"
    by (simp_all add: readsField_ValueOf)
  show ?case
    using Cons.IH [OF t] by (auto simp: f update_conv')
qed

lemma slotFields_nil:
  "list_all readsField flds \<Longrightarrow>
   slotFields flds r slot = None \<longleftrightarrow>
     (slot = None \<and> (\<forall>f \<in> set flds. isZeroValue (r (Name f))))"
proof (induction flds arbitrary: slot)
  case Nil
  then show ?case by simp
next
  case (Cons f flds)
  then have f: "ValueOf f r = (r (Name f), isZeroValue (r (Name f)))"
    and t: "list_all readsField flds"
    by (simp_all add: readsField_ValueOf)
  show ?case
    using Cons.IH [OF t] by (auto simp: f)
qed

lemma length_elemField [simp]: "length (elemField f elems i arr) = length arr"
  by (simp add: elemField_def Let_def split: prod.splits)

lemma nth_elemField:
  "i < length arr \<Longrightarrow>
   elemField f elems k arr ! i = (if i = k then slotFields [f] (elems ! k) (arr ! k) else arr ! i)"
  by (auto simp: elemField_def Let_def split: prod.splits)

text \<open>The inner loop, after \<open>k\<close> rounds: the first \<open>k\<close> slots have taken the field.\<close>

lemma inner_loop:
  "k \<le> length arr \<Longrightarrow>
   fold (elemField f elems) [0..<k] arr =
     map (\<lambda>i. if i < k then slotFields [f] (elems ! i) (arr ! i) else arr ! i) [0..<length arr]"
proof (induction k)
  case 0
  then show ?case by (simp add: map_nth)
next
  case (Suc k)
  define arr' where "arr' = fold (elemField f elems) [0..<k] arr"
  have IH: "arr' =
     map (\<lambda>i. if i < k then slotFields [f] (elems ! i) (arr ! i) else arr ! i) [0..<length arr]"
    using Suc by (simp add: arr'_def)
  have k: "k < length arr"
    using Suc.prems by simp
  have l: "length arr' = length arr"
    by (simp add: IH)
  have s: "fold (elemField f elems) [0..<Suc k] arr = elemField f elems k arr'"
    by (simp add: arr'_def)
  show ?case
    unfolding s
  proof (rule nth_equalityI)
    show "length (elemField f elems k arr') =
          length (map (\<lambda>i. if i < Suc k then slotFields [f] (elems ! i) (arr ! i) else arr ! i)
                    [0..<length arr])"
      by (simp add: l)
  next
    fix i
    assume "i < length (elemField f elems k arr')"
    then have i: "i < length arr"
      by (simp add: l)
    then have "elemField f elems k arr' ! i =
                 (if i = k then slotFields [f] (elems ! k) (arr' ! k) else arr' ! i)"
      by (simp add: nth_elemField l)
    moreover have "arr' ! k = arr ! k"
      using k by (simp add: IH)
    moreover have "arr' ! i = (if i < k then slotFields [f] (elems ! i) (arr ! i) else arr ! i)"
      using i by (simp add: IH)
    ultimately show "elemField f elems k arr' ! i =
          map (\<lambda>i. if i < Suc k then slotFields [f] (elems ! i) (arr ! i) else arr ! i)
            [0..<length arr] ! i"
      using i by (auto simp: less_Suc_eq)
  qed
qed

lemma map_upt_nth: "map (\<lambda>i. h (xs ! i)) [0..<length xs] = map h xs"
  by (rule nth_equalityI) auto

lemma slotFields_Cons:
  "slotFields (f # flds) r slot = slotFields flds r (slotFields [f] r slot)"
  by (simp split: prod.splits)

lemma outer_loop:
  "length arr = length elems \<Longrightarrow>
   sliceFields flds elems (length elems) arr =
     map (\<lambda>i. slotFields flds (elems ! i) (arr ! i)) [0..<length elems]"
proof (induction flds arbitrary: arr)
  case Nil
  then show ?case using map_nth [of arr] by simp
next
  case (Cons f flds)
  define arr' where "arr' = fold (elemField f elems) [0..<length elems] arr"
  have a: "arr' = map (\<lambda>i. slotFields [f] (elems ! i) (arr ! i)) [0..<length elems]"
    using inner_loop [of "length elems" arr f elems] Cons.prems by (simp add: arr'_def)
  then have l: "length arr' = length elems"
    by simp
  have "sliceFields (f # flds) elems (length elems) arr = sliceFields flds elems (length elems) arr'"
    by (simp add: arr'_def)
  also have "\<dots> = map (\<lambda>i. slotFields flds (elems ! i) (arr' ! i)) [0..<length elems]"
    by (rule Cons.IH [OF l])
  also have "\<dots> = map (\<lambda>i. slotFields (f # flds) (elems ! i) (arr ! i)) [0..<length elems]"
  proof (rule map_cong)
    fix i
    assume "i \<in> set [0..<length elems]"
    then have "arr' ! i = slotFields [f] (elems ! i) (arr ! i)"
      by (simp add: a del: slotFields.simps)
    then show "slotFields flds (elems ! i) (arr' ! i) = slotFields (f # flds) (elems ! i) (arr ! i)"
      by (simp only: slotFields_Cons [of f flds])
  qed simp
  finally show ?case .
qed

text \<open>The slice branch builds one slot per element, in the order of the elements.\<close>

lemma sliceData_slots: "sliceData flds elems = map (\<lambda>r. slotFields flds r None) elems"
proof -
  have "sliceData flds elems =
          map (\<lambda>i. slotFields flds (elems ! i) (replicate (length elems) None ! i)) [0..<length elems]"
    using outer_loop [of "replicate (length elems) None" elems flds]
    by (simp add: sliceData_def Let_def)
  also have "\<dots> = map (\<lambda>i. slotFields flds (elems ! i) None) [0..<length elems]"
    by (rule map_cong) auto
  also have "\<dots> = map (\<lambda>r. slotFields flds r None) elems"
    by (rule map_upt_nth)
  finally show ?thesis .
qed
lemma sliceData_nth:
  assumes "list_all readsField flds" and "i < length rs"
  shows "sliceData flds rs ! i = None \<longleftrightarrow> (\<forall>f \<in> set flds. isZeroValue ((rs ! i) (Name f)))"
  using slotFields_nil [OF assms(1), of "rs ! i" None] assms(2)
  by (simp add: sliceData_slots)


lemma readsField_userFields: "list_all readsField userFields"
  by (simp add: userFields_def readsField_def fieldNamed_def)

text \<open>
  The keys of the field map of a struct are names of schema fields (gorm's
  \<open>field.Name\<close>, the name of the Go field): the key of a field never is its JSON name.
\<close>

lemma structFields_keys:
  assumes "list_all readsField flds" and "map_of (structFields flds r []) k = Some v"
  shows "k \<in> Name ` set flds \<and> v = r k \<and> \<not> isZeroValue (r k)"
  using structFields_lookup [OF assms(1), of r "[]" k] assms(2)
  by (simp split: if_splits)

section \<open>Encoding and decoding a struct\<close>

lemma decode_mike_tagged:
  "decodeDoc [(''user_name'', ''Name''), (''gender'', ''Gender'')]
     (JObject [(''Gender'', JInt 1), (''Name'', JString ''Mike'')]) (VStruct (user [] 0))
   = (VStruct ((user [] 0)(''Gender'' := VInt 1)), None)"
  by (simp add: fieldFor_def lowerCase_def typeError_def user_def)

text \<open>
  C6 on the code. The model \<open>User\<close> carries the tags \<open>json:user_name\<close> on \<open>Name\<close> and
  \<open>json:gender\<close> on \<open>Gender\<close>. The user Mike (gender 1) is encoded by \<open>queryResult\<close>
  under the keys \<open>Name\<close> and \<open>Gender\<close>, the names of the Go fields. \<open>unmarshalToDB\<close>
  decodes that payload into the zero user without an error and sets \<open>RowsAffected\<close>
  to 1; the key \<open>Gender\<close> is matched to the field of JSON name \<open>gender\<close>, the key
  \<open>Name\<close> selects no field. The decoded user has gender 1 and the empty name, where
  the original has the name Mike.
\<close>

theorem tagged_field_not_restored:
  "queryResult (sampleExt taggedJson) (userCacher (sampleExt taggedJson) emptyStore)
     (findDB userType (VStruct (user ''Mike'' 1)))
   = Some ((True, render (ValueData [(''Name'', VStr ''Mike''), (''Gender'', VInt 1)]), None),
           findDB userType (VStruct (user ''Mike'' 1))) \<and>
   render (ValueData [(''Name'', VStr ''Mike''), (''Gender'', VInt 1)])
     = ''{'' @ [quote] @ ''Gender'' @ [quote] @ '':1,'' @ [quote] @ ''Name'' @ [quote] @ '':''
         @ [quote] @ ''Mike'' @ [quote] @ ''}'' \<and>
   unmarshalToDB (sampleExt taggedJson) (userCacher (sampleExt taggedJson) emptyStore)
     (render (ValueData [(''Name'', VStr ''Mike''), (''Gender'', VInt 1)]))
     (findDB userType (VStruct (user [] 0)))
   = Some ((findDB userType (VStruct ((user [] 0)(''Gender'' := VInt 1))))\<lparr>RowsAffected := 1\<rparr>) \<and>
   Error ((findDB userType (VStruct ((user [] 0)(''Gender'' := VInt 1))))\<lparr>RowsAffected := 1\<rparr>) = None \<and>
   ((user [] 0)(''Gender'' := VInt 1)) ''Gender'' = user ''Mike'' 1 ''Gender'' \<and>
   ((user [] 0)(''Gender'' := VInt 1)) ''Name'' = VStr [] \<and>
   user ''Mike'' 1 ''Name'' = VStr ''Mike''"
proof -
  let ?ext = "sampleExt taggedJson"
  let ?g = "userCacher ?ext emptyStore"
  let ?p = "render (ValueData [(''Name'', VStr ''Mike''), (''Gender'', VInt 1)])"
  have s: "Schema (findDB userType (VStruct (user ''Mike'' 1))) = Some userFields"
    "ReflectValue (findDB userType (VStruct (user ''Mike'' 1))) = VStruct (user ''Mike'' 1)"
    by (simp_all add: findDB_def)
  have a: "queryResult ?ext ?g (findDB userType (VStruct (user ''Mike'' 1)))
             = Some ((True, ?p, None), findDB userType (VStruct (user ''Mike'' 1)))"
    unfolding queryResult_def s taggedJson_def
    by (simp only: option.case gvalue.case Let_def structFields_user jsonFor_calls prod.case)
  have b: "?p = ''{'' @ [quote] @ ''Gender'' @ [quote] @ '':1,'' @ [quote] @ ''Name'' @ [quote] @ '':''
         @ [quote] @ ''Mike'' @ [quote] @ ''}''"
    by (simp add: renderString_def escapeChar_def sortMembers_def quote_def backslash_def)
  have u: "Unmarshal (json ?ext) ?p (Suc 0) (VStruct (user [] 0))
             = (VStruct ((user [] 0)(''Gender'' := VInt 1)), None)"
    unfolding taggedJson_def jsonFor_calls parse_mike
    by (simp only: option.case decode_mike_tagged)
  have d: "ReflectValue (findDB userType (VStruct (user [] 0))) = VStruct (user [] 0)"
    "DestPtrs (findDB userType (VStruct (user [] 0))) = Suc 0"
    by (simp_all add: findDB_def)
  have c: "unmarshalToDB ?ext ?g ?p (findDB userType (VStruct (user [] 0)))
             = Some ((findDB userType (VStruct ((user [] 0)(''Gender'' := VInt 1))))\<lparr>RowsAffected := 1\<rparr>)"
    unfolding unmarshalToDB_def d u by (simp add: findDB_def)
  have e: "Error ((findDB userType (VStruct ((user [] 0)(''Gender'' := VInt 1))))\<lparr>RowsAffected := 1\<rparr>) = None"
    by (simp add: findDB_def)
  have f: "((user [] 0)(''Gender'' := VInt 1)) ''Gender'' = user ''Mike'' 1 ''Gender''"
    "((user [] 0)(''Gender'' := VInt 1)) ''Name'' = VStr []"
    "user ''Mike'' 1 ''Name'' = VStr ''Mike''"
    by (simp_all add: user_def)
  show ?thesis
    using a b c e f by (intro conjI)
qed

section \<open>Encoding a collection\<close>

lemma sliceData_two_users:
  "sliceData userFields [user ''Ann'' 0, user [] 0] = [Some [(''Name'', VStr ''Ann'')], None]"
  by (simp add: sliceData_slots userFields_def fieldNamed_def user_def isZeroValue_def)

lemma structFields_zero_user: "structFields userFields (user [] 0) [] = []"
  by (simp add: userFields_def fieldNamed_def user_def isZeroValue_def)

text \<open>
  C7 on the code. A read into \<open>[]*User\<close> returns the user Ann and a user with all
  fields zero. \<open>queryResult\<close> hands \<open>Marshal\<close> the field map of Ann and, at the
  position of the second user, the nil map: the slot is not an empty map, and the
  payload has \<open>null\<close> there. The struct branch does make the map before its loop: the
  zero user alone is encoded as the empty object.
\<close>

theorem zero_element_is_nil_map:
  "queryResult (sampleExt sampleJson) (userCacher (sampleExt sampleJson) emptyStore)
     (findDB (sliceOf (ptrTo userType)) (VSlice (user [] 0) [user ''Ann'' 0, user [] 0]))
   = Some ((True, render (ValueArrData [Some [(''Name'', VStr ''Ann'')], None]), None),
           findDB (sliceOf (ptrTo userType)) (VSlice (user [] 0) [user ''Ann'' 0, user [] 0])) \<and>
   sliceData userFields [user ''Ann'' 0, user [] 0] ! 1 = None \<and>
   sliceData userFields [user ''Ann'' 0, user [] 0] ! 1 \<noteq> Some [] \<and>
   render (ValueArrData [Some [(''Name'', VStr ''Ann'')], None])
     = ''[{'' @ [quote] @ ''Name'' @ [quote] @ '':'' @ [quote] @ ''Ann'' @ [quote] @ ''},null]'' \<and>
   queryResult (sampleExt sampleJson) (userCacher (sampleExt sampleJson) emptyStore)
     (findDB userType (VStruct (user [] 0)))
   = Some ((True, ''{}'', None), findDB userType (VStruct (user [] 0)))"
proof -
  let ?ext = "sampleExt sampleJson"
  let ?db = "findDB (sliceOf (ptrTo userType)) (VSlice (user [] 0) [user ''Ann'' 0, user [] 0])"
  have s: "Schema ?db = Some userFields"
    "ReflectValue ?db = VSlice (user [] 0) [user ''Ann'' 0, user [] 0]"
    by (simp_all add: findDB_def)
  have q: "queryResult ?ext (userCacher ?ext emptyStore) ?db
             = Some ((True, render (ValueArrData [Some [(''Name'', VStr ''Ann'')], None]), None), ?db)"
    unfolding queryResult_def s sampleJson_def
    by (simp only: option.case gvalue.case sliceData_two_users jsonFor_calls prod.case Let_def)
  have n: "sliceData userFields [user ''Ann'' 0, user [] 0] ! 1 = None"
    by (simp add: sliceData_two_users)
  have r: "render (ValueArrData [Some [(''Name'', VStr ''Ann'')], None])
     = ''[{'' @ [quote] @ ''Name'' @ [quote] @ '':'' @ [quote] @ ''Ann'' @ [quote] @ ''},null]''"
    by (simp add: renderString_def escapeChar_def sortMembers_def quote_def backslash_def)
  have t: "Schema (findDB userType (VStruct (user [] 0))) = Some userFields"
    "ReflectValue (findDB userType (VStruct (user [] 0))) = VStruct (user [] 0)"
    by (simp_all add: findDB_def)
  have e: "render (ValueData []) = ''{}''"
    by (simp add: sortMembers_def)
  have z: "queryResult ?ext (userCacher ?ext emptyStore) (findDB userType (VStruct (user [] 0)))
             = Some ((True, ''{}'', None), findDB userType (VStruct (user [] 0)))"
    unfolding queryResult_def t sampleJson_def
    by (simp only: option.case gvalue.case Let_def structFields_zero_user jsonFor_calls prod.case e)
  show ?thesis
    using q n r z by simp
qed

end
